theory Spec2Isabelle
  imports Complex_Main
begin

section \<open>The simple_car task: telemetry, goal transition and dashboard overlay\<close>

text \<open>
  The development embeds \<^verbatim>\<open>simple_car.cc\<close> and \<^verbatim>\<open>simple_car.h\<close>.
  C \<^verbatim>\<open>float\<close> and \<^verbatim>\<open>double\<close> values are modelled as exact real numbers: every
  arithmetic operation, \<^verbatim>\<open>sqrt\<close>, \<^verbatim>\<open>sin\<close>, \<^verbatim>\<open>cos\<close> and \<^verbatim>\<open>atan2\<close> is
  the mathematical one, without rounding, overflow, infinities or NaN. The one place
  where rounding decides a property, the call at which the fuel reserve wraps around, is
  modelled a second time in binary64 arithmetic. Mutation of the scene, of the
  simulation data and of the task's members is explicit state passing.
\<close>

subsection \<open>MuJoCo types the task writes to\<close>

datatype mjtGeom =
    mjGEOM_PLANE | mjGEOM_HFIELD | mjGEOM_SPHERE | mjGEOM_CAPSULE | mjGEOM_ELLIPSOID
  | mjGEOM_CYLINDER | mjGEOM_BOX | mjGEOM_MESH | mjGEOM_LABEL | mjGEOM_NONE

datatype mjtCatBit = mjCAT_STATIC | mjCAT_DYNAMIC | mjCAT_DECOR | mjCAT_ALL

text \<open>
  Texts are C strings. The rendering done by \<^verbatim>\<open>printf\<close> is not computed: a
  formatted text is kept as the format with its arguments, and \<open>Prefix n t\<close> is the text
  \<open>t\<close> cut to its first \<open>n\<close> characters.
\<close>

datatype printf_arg = ArgInt int | ArgDouble real

datatype cstring = Str string | Printf string "printf_arg list" | Prefix nat cstring

text \<open>
  \<^verbatim>\<open>snprintf(buf, sizeof(buf), fmt, args)\<close> with \<open>n = sizeof(buf)\<close>: at most \<open>n - 1\<close>
  characters and the terminating zero are stored.
\<close>

definition snprintf :: "nat \<Rightarrow> string \<Rightarrow> printf_arg list \<Rightarrow> cstring" where
  "snprintf n fmt args = Prefix (n - 1) (Printf fmt args)"

text \<open>
  \<^verbatim>\<open>strncpy(geom->label, text, sizeof(geom->label) - 1)\<close> followed by the terminating
  zero at the last position: the label holds the first 99 characters of the text
  (\<^verbatim>\<open>mjvGeom.label\<close> is \<^verbatim>\<open>char[100]\<close>).
\<close>

fun strncpy_label :: "cstring \<Rightarrow> cstring" where
  "strncpy_label (Str s) = Str (take 99 s)"
| "strncpy_label (Printf fmt args) = Prefix 99 (Printf fmt args)"
| "strncpy_label (Prefix n t) = Prefix (min 99 n) t"

text \<open>The fields of \<^verbatim>\<open>mjvGeom\<close> that the task assigns; arrays are lists.\<close>

record mjvGeom =
  geom_type :: mjtGeom
  geom_size :: "real list"
  geom_pos :: "real list"
  geom_mat :: "real list"
  geom_rgba :: "real list"
  geom_label :: cstring
  geom_category :: mjtCatBit

text \<open>
  \<^verbatim>\<open>mjvScene\<close>: the buffer \<open>geoms\<close> allocated by the host with \<open>maxgeom\<close> slots, of
  which the first \<open>ngeom\<close> are in use.
\<close>

record mjvScene =
  maxgeom :: int
  ngeom :: int
  geoms :: "mjvGeom list"

subsection \<open>Simulation data and the telemetry\<close>

text \<open>
  The arrays of \<^verbatim>\<open>mjData\<close> that the task reads or writes, as functions from the index,
  and the simulation time.
\<close>

record mjData =
  qpos :: "nat \<Rightarrow> real"
  qvel :: "nat \<Rightarrow> real"
  mocap_pos :: "nat \<Rightarrow> real"
  ctrl :: "nat \<Rightarrow> real"
  xpos :: "nat \<Rightarrow> real"
  time :: real

record DashboardData =
  speed_kmh :: real
  rpm :: real
  fuel :: real
  temperature :: real
  simulated_fuel :: real

text \<open>The default member initialisers of \<^verbatim>\<open>DashboardData\<close>.\<close>

definition DashboardData_init :: DashboardData where
  "DashboardData_init =
     \<lparr>speed_kmh = 0, rpm = 0, fuel = 100, temperature = 60, simulated_fuel = 100\<rparr>"

text \<open>\<^verbatim>\<open>fmod(x, y)\<close>: the remainder of \<open>x / y\<close> with the quotient truncated towards zero.\<close>

definition fmod :: "real \<Rightarrow> real \<Rightarrow> real" where
  "fmod x y = x - y * of_int (if 0 \<le> x / y then \<lfloor>x / y\<rfloor> else \<lceil>x / y\<rceil>)"

text \<open>
  The format of the debug line; the degree sign is the two bytes of its UTF-8 encoding
  and the line ends with a newline.
\<close>

definition dashboard_format :: string where
  "dashboard_format =
     ''Dashboard - Speed: %.1f km/h, RPM: %.0f, Fuel: %.1f%%, Temp: %.1f''
       @ [CHR 0xC2, CHR 0xB0] @ ''C'' @ [CHR 0x0A]"

text \<open>
  \<^verbatim>\<open>UpdateDashboardData\<close> mutates the member \<^verbatim>\<open>dashboard_\<close> and may print one line:
  the state is the dashboard together with the lines printed so far. The \<^verbatim>\<open>model\<close>
  argument is not used by the function. The local \<open>d_rpm\<close> is the member
  \<^verbatim>\<open>dashboard_.rpm\<close> as the statements assign and read it, and so on for the others.
\<close>

definition UpdateDashboardData ::
  "mjData \<Rightarrow> DashboardData \<times> cstring list \<Rightarrow> DashboardData \<times> cstring list" where
  "UpdateDashboardData data st =
     (let dashboard = fst st;
          out = snd st;
          vx = qvel data 0;
          vy = qvel data 1;
          speed = sqrt (vx * vx + vy * vy);
          d_speed_kmh = speed * 3.6;
          d_rpm = d_speed_kmh * 40 + 800;
          d_rpm = (if d_rpm > 8000 then 8000 else d_rpm);
          d_rpm = (if d_rpm < 800 then 800 else d_rpm);
          d_simulated_fuel = simulated_fuel dashboard - 0.001;
          d_simulated_fuel = (if d_simulated_fuel < 0 then 100 else d_simulated_fuel);
          d_fuel = d_simulated_fuel;
          d_temperature = 60 + (d_rpm / 8000) * 60;
          d_temperature = (if d_temperature > 120 then 120 else d_temperature);
          dashboard = dashboard\<lparr>speed_kmh := d_speed_kmh, rpm := d_rpm, fuel := d_fuel,
                        temperature := d_temperature, simulated_fuel := d_simulated_fuel\<rparr>;
          out = (if fmod (time data) 1 < 0.01 then
                   out @ [Printf dashboard_format
                            [ArgDouble d_speed_kmh, ArgDouble d_rpm, ArgDouble d_fuel,
                             ArgDouble d_temperature]]
                 else out)
      in (dashboard, out))"

subsection \<open>The fuel reserve in binary64 arithmetic\<close>

text \<open>
  \<^verbatim>\<open>simulated_fuel\<close> is a \<^verbatim>\<open>double\<close> and \<^verbatim>\<open>0.001\<close> is a \<^verbatim>\<open>double\<close> literal, which is
  not the real number \<open>1 / 1000\<close>. The call at which the reserve first drops below zero
  depends on the rounding of each subtraction, so these statements are modelled a second
  time, in binary64 arithmetic. A binary64 value that is an integer multiple of
  \<open>2\<^sup>-\<^sup>6\<^sup>2\<close> is represented by that integer: \<open>100.0\<close> is \<open>100 * 2 ^ 62\<close> and the literal
  \<open>0.001\<close> is \<open>4611686018427388\<close>, the 53-bit integer nearest to \<open>2 ^ 62 / 1000\<close>. The
  difference of two such values is an integer, and the binary64 subtraction returns it
  rounded to 53 significant bits, ties to even; the result is again an integer, and no
  value on the way leaves the range of normal binary64 numbers.
\<close>

text \<open>
  The number of low bits that rounding to 53 significant bits drops from a non-negative
  integer.
\<close>

function shift53 :: "int \<Rightarrow> nat" where
  "shift53 m = (if m < 2 ^ 53 then 0 else Suc (shift53 (m div 2)))"
  by pat_completeness auto
termination
  by (relation "measure nat") auto

declare shift53.simps [simp del]

text \<open>Rounding to the nearest multiple of \<open>2 ^ k\<close>, a tie going to the even multiple.\<close>

definition round_to :: "nat \<Rightarrow> int \<Rightarrow> int" where
  "round_to k m =
     (let q = m div 2 ^ k;
          r = m mod 2 ^ k
      in if 2 * r < 2 ^ k then q * 2 ^ k
         else if 2 ^ k < 2 * r then (q + 1) * 2 ^ k
         else (if even q then q else q + 1) * 2 ^ k)"

text \<open>Rounding an integer to 53 significant bits, ties to even.\<close>

definition round53 :: "int \<Rightarrow> int" where
  "round53 m = (if m < 0 then - round_to (shift53 (- m)) (- m) else round_to (shift53 m) m)"

text \<open>
  The statements
  \<^verbatim>\<open>simulated_fuel -= 0.001; if (simulated_fuel < 0.0) simulated_fuel = 100.0;\<close>
  on scaled binary64 values. The second component counts the resets so far; it is not
  a variable of the program.
\<close>

definition fuel_step64 :: "int \<times> nat \<Rightarrow> int \<times> nat" where
  "fuel_step64 st =
     (let simulated_fuel = round53 (fst st - 4611686018427388)
      in if simulated_fuel < 0 then (100 * 2 ^ 62, snd st + 1) else (simulated_fuel, snd st))"

subsection \<open>The goal transition\<close>

text \<open>
  \<^verbatim>\<open>mju_sub(res, vec1, vec2, n)\<close> and \<^verbatim>\<open>mju_norm(vec, n)\<close> of MuJoCo: the difference of
  two vectors of length \<open>n\<close> and the Euclidean norm.
\<close>

definition mju_sub :: "real list \<Rightarrow> real list \<Rightarrow> nat \<Rightarrow> real list" where
  "mju_sub vec1 vec2 n = map (\<lambda>i. vec1 ! i - vec2 ! i) [0..<n]"

definition mju_norm :: "real list \<Rightarrow> nat \<Rightarrow> real" where
  "mju_norm vec n = sqrt (sum_list (map (\<lambda>i. vec ! i * vec ! i) [0..<n]))"

text \<open>
  \<^verbatim>\<open>absl::BitGen\<close> and \<^verbatim>\<open>absl::Uniform<double>(gen, lo, hi)\<close> belong to Abseil. The
  state of a generator is a value of some type \<open>'g\<close>; a draw takes the generator and the
  interval and returns the value drawn with the generator after the draw. The function
  doing that is a parameter of the transition. The transition constructs its generator
  itself, inside the branch, seeded from outside the program: the caller cannot supply
  one, and the state \<open>gen\<close> in which the fresh generator starts is an argument that
  stands for that seeding, not an input of the C++ function.
\<close>

type_synonym 'g uniform = "'g \<Rightarrow> real \<Rightarrow> real \<Rightarrow> real \<times> 'g"

text \<open>The documented range of a draw: \<open>lo \<le> v < hi\<close>.\<close>

definition uniform_in_range :: "'g uniform \<Rightarrow> bool" where
  "uniform_in_range Uniform \<longleftrightarrow>
     (\<forall>gen lo hi. lo < hi \<longrightarrow> lo \<le> fst (Uniform gen lo hi) \<and> fst (Uniform gen lo hi) < hi)"

definition TransitionLocked ::
  "'g uniform \<Rightarrow> 'g \<Rightarrow> mjData \<Rightarrow> DashboardData \<times> cstring list
     \<Rightarrow> mjData \<times> (DashboardData \<times> cstring list)" where
  "TransitionLocked Uniform gen data st =
     (let car_pos = [qpos data 0, qpos data 1];
          goal_pos = [mocap_pos data 0, mocap_pos data 1];
          car_to_goal = mju_sub goal_pos car_pos 2;
          data =
            (if mju_norm car_to_goal 2 < 0.2 then
               let (u0, gen) = Uniform gen (- 2) 2;
                   data = data\<lparr>mocap_pos := (mocap_pos data)(0 := u0)\<rparr>;
                   (u1, gen) = Uniform gen (- 2) 2;
                   data = data\<lparr>mocap_pos := (mocap_pos data)(1 := u1)\<rparr>;
                   data = data\<lparr>mocap_pos := (mocap_pos data)(2 := 0.01)\<rparr>
               in data
             else data)
      in (data, UpdateDashboardData data st))"

subsection \<open>The 2D drawing helpers\<close>

definition Draw2DRectangle ::
  "mjvScene \<Rightarrow> real \<Rightarrow> real \<Rightarrow> real \<Rightarrow> real \<Rightarrow> real \<Rightarrow> real \<Rightarrow> real \<Rightarrow> real \<Rightarrow> mjvScene" where
  "Draw2DRectangle scene x y width height r g b a =
     (if ngeom scene \<ge> maxgeom scene then scene
      else
        let n = nat (ngeom scene);
            geom = geoms scene ! n;
            geom = geom\<lparr>geom_type := mjGEOM_BOX\<rparr>;
            geom = geom\<lparr>geom_size := [width, height, 0.001]\<rparr>;
            geom = geom\<lparr>geom_pos := [x, y, 0]\<rparr>;
            geom = geom\<lparr>geom_rgba := [r, g, b, a]\<rparr>;
            geom = geom\<lparr>geom_mat := [1, 0, 0, 0, 1, 0, 0, 0, 1]\<rparr>;
            geom = geom\<lparr>geom_category := mjCAT_DECOR\<rparr>
        in scene\<lparr>geoms := (geoms scene)[n := geom], ngeom := ngeom scene + 1\<rparr>)"

text \<open>
  \<^verbatim>\<open>std::atan2(dy, dx)\<close> on reals: the angle in \<open>(-pi, pi]\<close> of the point \<open>(dx, dy)\<close>,
  and \<open>0\<close> at the origin.
\<close>

definition atan2 :: "real \<Rightarrow> real \<Rightarrow> real" where
  "atan2 y x =
     (if 0 < x then arctan (y / x)
      else if x < 0 then (if 0 \<le> y then arctan (y / x) + pi else arctan (y / x) - pi)
      else if 0 < y then pi / 2
      else if y < 0 then - (pi / 2)
      else 0)"

definition Draw2DLine ::
  "mjvScene \<Rightarrow> real \<Rightarrow> real \<Rightarrow> real \<Rightarrow> real \<Rightarrow> real \<Rightarrow> real \<Rightarrow> real \<Rightarrow> real \<Rightarrow> real \<Rightarrow> mjvScene" where
  "Draw2DLine scene x1 y1 x2 y2 width r g b a =
     (let dx = x2 - x1;
          dy = y2 - y1;
          length = sqrt (dx * dx + dy * dy);
          angle = atan2 dy dx
      in
      if ngeom scene \<ge> maxgeom scene then scene
      else
        let n = nat (ngeom scene);
            geom = geoms scene ! n;
            geom = geom\<lparr>geom_type := mjGEOM_BOX\<rparr>;
            geom = geom\<lparr>geom_size := [length / 2, width / 2, 0.001]\<rparr>;
            geom = geom\<lparr>geom_pos := [(x1 + x2) / 2, (y1 + y2) / 2, 0]\<rparr>;
            geom = geom\<lparr>geom_rgba := [r, g, b, a]\<rparr>;
            cos_a = cos angle;
            sin_a = sin angle;
            geom = geom\<lparr>geom_mat := [cos_a, - sin_a, 0, sin_a, cos_a, 0, 0, 0, 1]\<rparr>;
            geom = geom\<lparr>geom_category := mjCAT_DECOR\<rparr>
        in scene\<lparr>geoms := (geoms scene)[n := geom], ngeom := ngeom scene + 1\<rparr>)"

definition Draw2DCircle ::
  "mjvScene \<Rightarrow> real \<Rightarrow> real \<Rightarrow> real \<Rightarrow> real \<Rightarrow> real \<Rightarrow> real \<Rightarrow> real \<Rightarrow> mjvScene" where
  "Draw2DCircle scene x y radius r g b a =
     (if ngeom scene \<ge> maxgeom scene then scene
      else
        let n = nat (ngeom scene);
            geom = geoms scene ! n;
            geom = geom\<lparr>geom_type := mjGEOM_ELLIPSOID\<rparr>;
            geom = geom\<lparr>geom_size := [radius, radius, 0.001]\<rparr>;
            geom = geom\<lparr>geom_pos := [x, y, 0]\<rparr>;
            geom = geom\<lparr>geom_rgba := [r, g, b, a]\<rparr>;
            geom = geom\<lparr>geom_mat := [1, 0, 0, 0, 1, 0, 0, 0, 1]\<rparr>;
            geom = geom\<lparr>geom_category := mjCAT_DECOR\<rparr>
        in scene\<lparr>geoms := (geoms scene)[n := geom], ngeom := ngeom scene + 1\<rparr>)"

definition AddLabel ::
  "mjvScene \<Rightarrow> real \<Rightarrow> real \<Rightarrow> real \<Rightarrow> cstring \<Rightarrow> real \<Rightarrow> real \<Rightarrow> real \<Rightarrow> real \<Rightarrow> mjvScene" where
  "AddLabel scene x y z text size' r g b =
     (if ngeom scene < maxgeom scene then
        let n = nat (ngeom scene);
            geom = geoms scene ! n;
            geom = geom\<lparr>geom_type := mjGEOM_LABEL\<rparr>;
            geom = geom\<lparr>geom_size := [size', size', size']\<rparr>;
            geom = geom\<lparr>geom_pos := [x, y, z]\<rparr>;
            geom = geom\<lparr>geom_rgba := [r, g, b, 1]\<rparr>;
            geom = geom\<lparr>geom_label := strncpy_label text\<rparr>;
            geom = geom\<lparr>geom_category := mjCAT_DECOR\<rparr>
        in scene\<lparr>geoms := (geoms scene)[n := geom], ngeom := ngeom scene + 1\<rparr>
      else scene)"

text \<open>
  The goal marker is appended by a block inside \<^verbatim>\<open>ModifyScene\<close> (the red sphere at
  the goal's \<^verbatim>\<open>mocap_pos\<close>); the block is a function of the scene and of the goal's
  planar position.
\<close>

definition GoalMarker :: "mjvScene \<Rightarrow> real \<Rightarrow> real \<Rightarrow> mjvScene" where
  "GoalMarker scene goal_x goal_y =
     (if ngeom scene < maxgeom scene then
        let n = nat (ngeom scene);
            geom = geoms scene ! n;
            geom = geom\<lparr>geom_type := mjGEOM_SPHERE\<rparr>;
            geom = geom\<lparr>geom_size := [0.15, 0.15, 0.15]\<rparr>;
            geom = geom\<lparr>geom_pos := [goal_x, goal_y, 0.2]\<rparr>;
            geom = geom\<lparr>geom_rgba := [1, 0, 0, 0.8]\<rparr>;
            geom = geom\<lparr>geom_category := mjCAT_DECOR\<rparr>
        in scene\<lparr>geoms := (geoms scene)[n := geom], ngeom := ngeom scene + 1\<rparr>
      else scene)"

subsection \<open>The gauges\<close>

text \<open>
  The gauges read the member \<^verbatim>\<open>dashboard_\<close>, which is their first argument here. A loop
  \<^verbatim>\<open>for (int i = 0; i < n; i++)\<close> is a \<open>fold\<close> over \<open>[0..<n]\<close>.
\<close>

definition DrawSpeedometer2D ::
  "DashboardData \<Rightarrow> mjvScene \<Rightarrow> real \<Rightarrow> real \<Rightarrow> real \<Rightarrow> mjvScene" where
  "DrawSpeedometer2D dashboard scene x y size' =
     (let scene = Draw2DCircle scene x y size' 0.7 0.7 0.75 0.7;
          scene = Draw2DCircle scene x y (size' * 1.05) 0.4 0.7 1.0 0.6;
          scene = Draw2DCircle scene x y (size' * 0.95) 0.3 0.3 0.4 0.8;
          scene = fold (\<lambda>i scene.
                    let angle = real i * (2 * pi / 12);
                        cos_a = cos angle;
                        sin_a = sin angle;
                        inner_radius = size' * 0.8;
                        outer_radius = size' * 0.9
                    in Draw2DLine scene
                         (x + inner_radius * cos_a) (y + inner_radius * sin_a)
                         (x + outer_radius * cos_a) (y + outer_radius * sin_a)
                         0.02 0.1 0.1 0.2 0.8) [0..<12] scene;
          scene = fold (\<lambda>i scene.
                    let angle = real i * (2 * pi / 4);
                        cos_a = cos angle;
                        sin_a = sin angle;
                        inner_radius = size' * 0.75;
                        outer_radius = size' * 0.9
                    in Draw2DLine scene
                         (x + inner_radius * cos_a) (y + inner_radius * sin_a)
                         (x + outer_radius * cos_a) (y + outer_radius * sin_a)
                         0.03 0.0 0.5 1.0 0.9) [0..<4] scene;
          scene = fold (\<lambda>i scene.
                    let angle = real i * (2 * pi / 6);
                        cos_a = cos (angle - pi / 2);
                        sin_a = sin (angle - pi / 2);
                        label_radius = size' * 0.7;
                        label = snprintf 10 ''%d'' [ArgInt (int i * 10)]
                    in AddLabel scene
                         (x + label_radius * cos_a) (y + label_radius * sin_a)
                         0.01 label 0.1 0.1 0.1 0.9) [0..<6] scene;
          speed_ratio = speed_kmh dashboard / 50;
          speed_ratio = (if speed_ratio > 1 then 1 else speed_ratio);
          angle = speed_ratio * 2 * pi - pi / 2;
          pointer_length = size' * 0.6;
          end_x = x + pointer_length * cos angle;
          end_y = y + pointer_length * sin angle;
          scene = Draw2DLine scene x y end_x end_y 0.025 1.0 0.0 0.0 1.0;
          tail_length = size' * 0.2;
          tail_x = x - tail_length * cos angle * 0.3;
          tail_y = y - tail_length * sin angle * 0.3;
          scene = Draw2DLine scene x y tail_x tail_y 0.02 1.0 0.0 0.0 1.0;
          scene = Draw2DCircle scene x y (size' * 0.06) 0.0 0.0 0.0 1.0;
          scene = Draw2DCircle scene x y (size' * 0.04) 1.0 1.0 1.0 1.0;
          speed_text = snprintf 50 ''%.1f'' [ArgDouble (speed_kmh dashboard)];
          scene = AddLabel scene x y 0.02 speed_text 0.15 0.15 0.1 0.9;
          scene = AddLabel scene x (y - size' * 0.25) 0.02 (Str ''km/h'') 0.08 0.0 0.3 0.8;
          scene = AddLabel scene x (y + size' * 1.2) 0.02 (Str ''SPEED'') 0.15 0.0 0.5 1.0
      in scene)"

definition DrawTachometer2D ::
  "DashboardData \<Rightarrow> mjvScene \<Rightarrow> real \<Rightarrow> real \<Rightarrow> real \<Rightarrow> mjvScene" where
  "DrawTachometer2D dashboard scene x y size' =
     (let scene = Draw2DCircle scene x y size' 0.75 0.75 0.7 0.7;
          scene = Draw2DCircle scene x y (size' * 1.05) 1.0 0.6 0.3 0.6;
          scene = Draw2DCircle scene x y (size' * 0.95) 0.4 0.3 0.2 0.8;
          scene =
            (if rpm dashboard > 6000 then
               let warning_ratio = (rpm dashboard - 6000) / 2000;
                   warning_ratio = (if warning_ratio > 1 then 1 else warning_ratio)
               in fold (\<lambda>i scene.
                    let alpha = 0.3 + 0.7 * (real i / 3)
                    in Draw2DCircle scene x y (size' * (0.9 - real i * 0.05))
                         1.0 0.3 0.3 (alpha * warning_ratio)) [0..<3] scene
             else scene);
          scene = fold (\<lambda>i scene.
                    let angle = real i * (2 * pi / 12);
                        cos_a = cos angle;
                        sin_a = sin angle;
                        inner_radius = size' * 0.8;
                        outer_radius = size' * 0.9
                    in Draw2DLine scene
                         (x + inner_radius * cos_a) (y + inner_radius * sin_a)
                         (x + outer_radius * cos_a) (y + outer_radius * sin_a)
                         0.02 0.1 0.1 0.2 0.8) [0..<12] scene;
          scene = fold (\<lambda>i scene.
                    let angle = real i * (2 * pi / 5);
                        cos_a = cos (angle - pi / 2);
                        sin_a = sin (angle - pi / 2);
                        label_radius = size' * 0.7;
                        label = snprintf 10 ''%d'' [ArgInt (int i * 2)]
                    in AddLabel scene
                         (x + label_radius * cos_a) (y + label_radius * sin_a)
                         0.01 label 0.1 0.1 0.1 0.9) [0..<5] scene;
          rpm_ratio = rpm dashboard / 8000;
          rpm_ratio = (if rpm_ratio > 1 then 1 else rpm_ratio);
          angle = rpm_ratio * 2 * pi - pi / 2;
          pointer_length = size' * 0.6;
          end_x = x + pointer_length * cos angle;
          end_y = y + pointer_length * sin angle;
          scene = Draw2DLine scene x y end_x end_y 0.025 0.0 1.0 0.0 1.0;
          tail_length = size' * 0.2;
          tail_x = x - tail_length * cos angle * 0.3;
          tail_y = y - tail_length * sin angle * 0.3;
          scene = Draw2DLine scene x y tail_x tail_y 0.02 0.0 1.0 0.0 1.0;
          scene = Draw2DCircle scene x y (size' * 0.06) 0.0 0.0 0.0 1.0;
          scene = Draw2DCircle scene x y (size' * 0.04) 1.0 1.0 1.0 1.0;
          rpm_text = snprintf 50 ''%.0f'' [ArgDouble (rpm dashboard)];
          scene = AddLabel scene x y 0.02 rpm_text 0.15 0.15 0.1 0.9;
          scene = AddLabel scene x (y - size' * 0.25) 0.02 (Str ''RPM'') 0.08 0.0 0.3 0.8;
          scene = AddLabel scene x (y + size' * 1.2) 0.02 (Str ''TACHOMETER'') 0.15 1.0 0.5 0.0;
          scene =
            (if rpm dashboard > 6000 then
               AddLabel scene x (y - size' * 1.4) 0.02 (Str ''HIGH RPM!'') 0.12 1.0 0.1 0.1
             else scene)
      in scene)"

text \<open>
  The fuel gauge keeps the function-local static \<^verbatim>\<open>blink_timer\<close>: it is an argument and
  is returned with the scene.
\<close>

definition DrawFuelGauge2D ::
  "DashboardData \<Rightarrow> real \<Rightarrow> mjvScene \<Rightarrow> real \<Rightarrow> real \<Rightarrow> real \<Rightarrow> real \<Rightarrow> mjvScene \<times> real" where
  "DrawFuelGauge2D dashboard blink_timer scene x y width height =
     (let fuel_width = (fuel dashboard / 100) * width;
          (scene, blink_timer) =
            (if fuel_width > 0.01 then
               let fuel_x = x - (width - fuel_width) / 2;
                   fuel_y = y;
                   fuel_height = height * 0.8;
                   (fuel_color_r, fuel_color_g, fuel_color_b) =
                     (if fuel dashboard > 50 then (0.2, 1.0, 0.2)
                      else if fuel dashboard > 20 then (1.0, 1.0, 0.2)
                      else (1.0, 0.2, 0.2));
                   scene = Draw2DRectangle scene fuel_x fuel_y fuel_width fuel_height
                             fuel_color_r fuel_color_g fuel_color_b 1.0;
                   scene = Draw2DRectangle scene fuel_x fuel_y fuel_width fuel_height
                             0.0 0.0 0.0 0.3
               in if fuel dashboard < 20 then
                    let blink_timer = blink_timer + 0.1;
                        scene = (if fmod blink_timer 1 > 0.5
                                 then Draw2DRectangle scene x y width height 1.0 0.2 0.2 0.3
                                 else scene)
                    in (scene, blink_timer)
                  else (scene, blink_timer)
             else (Draw2DRectangle scene x y width (height * 0.6) 0.3 0.3 0.3 0.5, blink_timer));
          fuel_text = snprintf 50 ''FUEL: %.1f%%'' [ArgDouble (fuel dashboard)];
          scene = AddLabel scene x (y + height * 0.8) 0.02 fuel_text 0.1 0.1 0.1 1.0;
          scene = (if fuel dashboard < 20
                   then AddLabel scene x (y - height * 0.8) 0.02 (Str ''LOW FUEL!'') 0.12 1.0 0.1 0.1
                   else scene);
          scene = fold (\<lambda>i scene.
                    let marker_x = x - width / 2 + (width / 5) * real i;
                        marker_width = 0.02
                    in Draw2DLine scene marker_x (y - height * 0.4) marker_x (y - height * 0.2)
                         marker_width 0.2 0.2 0.3 0.8) [0..<6] scene
      in (scene, blink_timer))"

text \<open>
  The format of the temperature label; the degree sign is the two bytes of its UTF-8
  encoding.
\<close>

definition temp_format :: string where
  "temp_format = ''TEMP: %.1f'' @ [CHR 0xC2, CHR 0xB0] @ ''C''"

text \<open>The temperature gauge keeps the function-local static \<^verbatim>\<open>heat_timer\<close>.\<close>

definition DrawTemperatureGauge2D ::
  "DashboardData \<Rightarrow> real \<Rightarrow> mjvScene \<Rightarrow> real \<Rightarrow> real \<Rightarrow> real \<Rightarrow> real \<Rightarrow> mjvScene \<times> real" where
  "DrawTemperatureGauge2D dashboard heat_timer scene x y width height =
     (let min_temp = 60;
          max_temp = 120;
          temp_range = max_temp - min_temp;
          temp_ratio = (temperature dashboard - min_temp) / temp_range;
          temp_ratio = (if temp_ratio < 0 then 0 else temp_ratio);
          temp_ratio = (if temp_ratio > 1 then 1 else temp_ratio);
          temp_width = temp_ratio * width;
          (scene, heat_timer) =
            (if temp_width > 0.01 then
               let temp_x = x - (width - temp_width) / 2;
                   temp_y = y;
                   temp_height = height * 0.8;
                   (temp_color_r, temp_color_g, temp_color_b) =
                     (if temp_ratio < 0.5 then
                        let t = temp_ratio / 0.5
                        in (0.3 * (1 - t), 0.5 + 0.5 * t, 1.0 * (1 - t))
                      else if temp_ratio < 0.8 then
                        let t = (temp_ratio - 0.5) / 0.3
                        in (0.3 + 0.7 * t, 1.0 * (1 - 0.2 * t), 0.5 * (1 - t))
                      else
                        let t = (temp_ratio - 0.8) / 0.2
                        in (1.0, 0.8 * (1 - t), 0.2 * (1 - t)));
                   scene = Draw2DRectangle scene temp_x temp_y temp_width temp_height
                             temp_color_r temp_color_g temp_color_b 1.0;
                   scene = Draw2DRectangle scene temp_x temp_y temp_width temp_height
                             0.0 0.0 0.0 0.3
               in if temperature dashboard > 100 then
                    let heat_timer = heat_timer + 0.05;
                        pulse = 0.3 + 0.3 * sin (heat_timer * 5)
                    in (Draw2DRectangle scene x y width height 1.0 0.3 0.3 pulse, heat_timer)
                  else (scene, heat_timer)
             else (Draw2DRectangle scene x y width (height * 0.6) 0.3 0.3 0.3 0.5, heat_timer));
          temp_text = snprintf 50 temp_format [ArgDouble (temperature dashboard)];
          scene = AddLabel scene x (y + height * 0.8) 0.02 temp_text 0.1 0.1 0.1 1.0;
          scene = (if temperature dashboard > 100
                   then AddLabel scene x (y - height * 0.8) 0.02 (Str ''OVERHEAT!'') 0.12 1.0 0.1 0.1
                   else scene);
          scene = fold (\<lambda>i scene.
                    let marker_x = x - width / 2 + (width / 5) * real i;
                        marker_width = 0.02
                    in Draw2DLine scene marker_x (y - height * 0.4) marker_x (y - height * 0.2)
                         marker_width 0.2 0.2 0.3 0.8) [0..<6] scene;
          marker_ratio = (temperature dashboard - min_temp) / temp_range;
          scene =
            (if marker_ratio \<ge> 0 \<and> marker_ratio \<le> 1 then
               let marker_x = x - width / 2 + (width * marker_ratio);
                   scene = Draw2DLine scene marker_x (y - height * 0.4)
                             (marker_x - 0.05) (y - height * 0.2) 0.03 0.0 0.0 0.0 0.8;
                   scene = Draw2DLine scene marker_x (y - height * 0.4)
                             (marker_x + 0.05) (y - height * 0.2) 0.03 0.0 0.0 0.0 0.8
               in scene
             else scene)
      in (scene, heat_timer))"

subsection \<open>The overlay pass\<close>

text \<open>
  \<^verbatim>\<open>mj_name2id(model, type, name)\<close> of MuJoCo: the id of the named object, or \<open>-1\<close> when
  the model has no such object. The model is its table of names.
\<close>

datatype mjtObj = mjOBJ_UNKNOWN | mjOBJ_BODY | mjOBJ_JOINT | mjOBJ_GEOM | mjOBJ_SITE

record mjModel =
  names :: "mjtObj \<Rightarrow> string \<Rightarrow> nat option"

definition mj_name2id :: "mjModel \<Rightarrow> mjtObj \<Rightarrow> string \<Rightarrow> int" where
  "mj_name2id model type name = (case names model type name of None \<Rightarrow> - 1 | Some i \<Rightarrow> int i)"

text \<open>
  \<^verbatim>\<open>ModifyScene\<close> receives a pointer to the scene, which may be null: the scene is an
  option. The two static timers of the bar gauges are passed in and returned.
\<close>

definition ModifyScene ::
  "DashboardData \<Rightarrow> mjModel \<Rightarrow> mjData \<Rightarrow> mjvScene option \<Rightarrow> real \<times> real
     \<Rightarrow> mjvScene option \<times> (real \<times> real)" where
  "ModifyScene dashboard model data scene timers =
     (case scene of
        None \<Rightarrow> (None, timers)
      | Some scene \<Rightarrow>
          if maxgeom scene = 0 then (Some scene, timers)
          else
            let blink_timer = fst timers;
                heat_timer = snd timers;
                screen_center_x = 0;
                screen_top = 3;
                scene = AddLabel scene screen_center_x (screen_top - 0.5) 0.5
                          (Str ''CAR DASHBOARD'') 0.25 0.0 0.5 1.0;
                scene = DrawSpeedometer2D dashboard scene
                          (screen_center_x - 2.5) (screen_top - 2.0) 0.8;
                scene = DrawTachometer2D dashboard scene
                          (screen_center_x + 2.5) (screen_top - 2.0) 0.8;
                (scene, blink_timer) = DrawFuelGauge2D dashboard blink_timer scene
                          (screen_center_x - 2.5) (screen_top - 3.5) 1.5 0.4;
                (scene, heat_timer) = DrawTemperatureGauge2D dashboard heat_timer scene
                          (screen_center_x + 2.5) (screen_top - 3.5) 1.5 0.4;
                scene = GoalMarker scene (mocap_pos data 0) (mocap_pos data 1);
                car_body_id = mj_name2id model mjOBJ_BODY ''car'';
                scene =
                  (if car_body_id \<ge> 0 then
                     let car_pos = (\<lambda>k. xpos data (3 * nat car_body_id + k));
                         pos_text = snprintf 50 ''Car: (%.2f, %.2f)''
                                      [ArgDouble (car_pos 0), ArgDouble (car_pos 1)]
                     in AddLabel scene (car_pos 0) (car_pos 1) (car_pos 2 + 2.0) pos_text
                          0.1 0.0 1.0 0.0
                   else scene);
                goal_text = snprintf 50 ''Goal: (%.2f, %.2f)''
                              [ArgDouble (mocap_pos data 0), ArgDouble (mocap_pos data 1)];
                scene = AddLabel scene (mocap_pos data 0) (mocap_pos data 1) 0.5 goal_text
                          0.1 1.0 0.0 0.0
            in (Some scene, (blink_timer, heat_timer)))"

subsection \<open>Sequences of append calls\<close>

text \<open>
  One append call with its arguments, and the execution of a sequence of calls in
  order against a scene.
\<close>

datatype prim =
    Rectangle real real real real real real real real
  | Line real real real real real real real real real
  | Circle real real real real real real real
  | Label real real real cstring real real real real
  | Sphere real real

fun emit :: "prim \<Rightarrow> mjvScene \<Rightarrow> mjvScene" where
  "emit (Rectangle x y width height r g b a) scene = Draw2DRectangle scene x y width height r g b a"
| "emit (Line x1 y1 x2 y2 width r g b a) scene = Draw2DLine scene x1 y1 x2 y2 width r g b a"
| "emit (Circle x y radius r g b a) scene = Draw2DCircle scene x y radius r g b a"
| "emit (Label x y z text size' r g b) scene = AddLabel scene x y z text size' r g b"
| "emit (Sphere goal_x goal_y) scene = GoalMarker scene goal_x goal_y"

definition emit_all :: "prim list \<Rightarrow> mjvScene \<Rightarrow> mjvScene" where
  "emit_all ps scene = fold emit ps scene"

text \<open>What one append call writes into the slot it takes.\<close>

fun write_geom :: "prim \<Rightarrow> mjvGeom \<Rightarrow> mjvGeom" where
  "write_geom (Rectangle x y width height r g b a) geom =
     geom\<lparr>geom_type := mjGEOM_BOX, geom_size := [width, height, 0.001], geom_pos := [x, y, 0],
          geom_rgba := [r, g, b, a], geom_mat := [1, 0, 0, 0, 1, 0, 0, 0, 1],
          geom_category := mjCAT_DECOR\<rparr>"
| "write_geom (Line x1 y1 x2 y2 width r g b a) geom =
     geom\<lparr>geom_type := mjGEOM_BOX,
          geom_size := [sqrt ((x2 - x1) * (x2 - x1) + (y2 - y1) * (y2 - y1)) / 2, width / 2, 0.001],
          geom_pos := [(x1 + x2) / 2, (y1 + y2) / 2, 0],
          geom_rgba := [r, g, b, a],
          geom_mat := [cos (atan2 (y2 - y1) (x2 - x1)), - sin (atan2 (y2 - y1) (x2 - x1)), 0,
                       sin (atan2 (y2 - y1) (x2 - x1)), cos (atan2 (y2 - y1) (x2 - x1)), 0,
                       0, 0, 1],
          geom_category := mjCAT_DECOR\<rparr>"
| "write_geom (Circle x y radius r g b a) geom =
     geom\<lparr>geom_type := mjGEOM_ELLIPSOID, geom_size := [radius, radius, 0.001], geom_pos := [x, y, 0],
          geom_rgba := [r, g, b, a], geom_mat := [1, 0, 0, 0, 1, 0, 0, 0, 1],
          geom_category := mjCAT_DECOR\<rparr>"
| "write_geom (Label x y z text size' r g b) geom =
     geom\<lparr>geom_type := mjGEOM_LABEL, geom_size := [size', size', size'], geom_pos := [x, y, z],
          geom_rgba := [r, g, b, 1], geom_label := strncpy_label text,
          geom_category := mjCAT_DECOR\<rparr>"
| "write_geom (Sphere goal_x goal_y) geom =
     geom\<lparr>geom_type := mjGEOM_SPHERE, geom_size := [0.15, 0.15, 0.15],
          geom_pos := [goal_x, goal_y, 0.2], geom_rgba := [1, 0, 0, 0.8],
          geom_category := mjCAT_DECOR\<rparr>"

definition append_geom :: "(mjvGeom \<Rightarrow> mjvGeom) \<Rightarrow> mjvScene \<Rightarrow> mjvScene" where
  "append_geom f scene =
     (if maxgeom scene \<le> ngeom scene then scene
      else scene\<lparr>geoms := (geoms scene)[nat (ngeom scene) := f (geoms scene ! nat (ngeom scene))],
                 ngeom := ngeom scene + 1\<rparr>)"

text \<open>
  A scene as the host hands it over: the buffer has \<open>maxgeom\<close> slots and the count is
  within it.
\<close>

definition scene_ok :: "mjvScene \<Rightarrow> bool" where
  "scene_ok scene \<longleftrightarrow>
     0 \<le> ngeom scene \<and> ngeom scene \<le> maxgeom scene \<and> length (geoms scene) = nat (maxgeom scene)"

definition free_slots :: "mjvScene \<Rightarrow> nat" where
  "free_slots scene = nat (maxgeom scene - ngeom scene)"

subsection \<open>The calls made by the gauges and by the overlay pass\<close>

text \<open>
  The append calls that each gauge makes, in order, as a list; the properties section
  proves that running the list is what the gauge does.
\<close>

definition speedometer_prims :: "DashboardData \<Rightarrow> real \<Rightarrow> real \<Rightarrow> real \<Rightarrow> prim list" where
  "speedometer_prims dashboard x y size' =
     [Circle x y size' 0.7 0.7 0.75 0.7,
      Circle x y (size' * 1.05) 0.4 0.7 1.0 0.6,
      Circle x y (size' * 0.95) 0.3 0.3 0.4 0.8]
     @ map (\<lambda>i. Line (x + size' * 0.8 * cos (real i * (2 * pi / 12)))
                      (y + size' * 0.8 * sin (real i * (2 * pi / 12)))
                      (x + size' * 0.9 * cos (real i * (2 * pi / 12)))
                      (y + size' * 0.9 * sin (real i * (2 * pi / 12)))
                      0.02 0.1 0.1 0.2 0.8) [0..<12]
     @ map (\<lambda>i. Line (x + size' * 0.75 * cos (real i * (2 * pi / 4)))
                      (y + size' * 0.75 * sin (real i * (2 * pi / 4)))
                      (x + size' * 0.9 * cos (real i * (2 * pi / 4)))
                      (y + size' * 0.9 * sin (real i * (2 * pi / 4)))
                      0.03 0.0 0.5 1.0 0.9) [0..<4]
     @ map (\<lambda>i. Label (x + size' * 0.7 * cos (real i * (2 * pi / 6) - pi / 2))
                       (y + size' * 0.7 * sin (real i * (2 * pi / 6) - pi / 2))
                       0.01 (snprintf 10 ''%d'' [ArgInt (int i * 10)]) 0.1 0.1 0.1 0.9) [0..<6]
     @ (let speed_ratio = speed_kmh dashboard / 50;
            speed_ratio = (if speed_ratio > 1 then 1 else speed_ratio);
            angle = speed_ratio * 2 * pi - pi / 2
        in [Line x y (x + size' * 0.6 * cos angle) (y + size' * 0.6 * sin angle)
              0.025 1.0 0.0 0.0 1.0,
            Line x y (x - size' * 0.2 * cos angle * 0.3) (y - size' * 0.2 * sin angle * 0.3)
              0.02 1.0 0.0 0.0 1.0,
            Circle x y (size' * 0.06) 0.0 0.0 0.0 1.0,
            Circle x y (size' * 0.04) 1.0 1.0 1.0 1.0,
            Label x y 0.02 (snprintf 50 ''%.1f'' [ArgDouble (speed_kmh dashboard)])
              0.15 0.15 0.1 0.9,
            Label x (y - size' * 0.25) 0.02 (Str ''km/h'') 0.08 0.0 0.3 0.8,
            Label x (y + size' * 1.2) 0.02 (Str ''SPEED'') 0.15 0.0 0.5 1.0])"

definition tachometer_prims :: "DashboardData \<Rightarrow> real \<Rightarrow> real \<Rightarrow> real \<Rightarrow> prim list" where
  "tachometer_prims dashboard x y size' =
     [Circle x y size' 0.75 0.75 0.7 0.7,
      Circle x y (size' * 1.05) 1.0 0.6 0.3 0.6,
      Circle x y (size' * 0.95) 0.4 0.3 0.2 0.8]
     @ (if rpm dashboard > 6000 then
          let warning_ratio = (rpm dashboard - 6000) / 2000;
              warning_ratio = (if warning_ratio > 1 then 1 else warning_ratio)
          in map (\<lambda>i. Circle x y (size' * (0.9 - real i * 0.05)) 1.0 0.3 0.3
                           ((0.3 + 0.7 * (real i / 3)) * warning_ratio)) [0..<3]
        else [])
     @ map (\<lambda>i. Line (x + size' * 0.8 * cos (real i * (2 * pi / 12)))
                      (y + size' * 0.8 * sin (real i * (2 * pi / 12)))
                      (x + size' * 0.9 * cos (real i * (2 * pi / 12)))
                      (y + size' * 0.9 * sin (real i * (2 * pi / 12)))
                      0.02 0.1 0.1 0.2 0.8) [0..<12]
     @ map (\<lambda>i. Label (x + size' * 0.7 * cos (real i * (2 * pi / 5) - pi / 2))
                       (y + size' * 0.7 * sin (real i * (2 * pi / 5) - pi / 2))
                       0.01 (snprintf 10 ''%d'' [ArgInt (int i * 2)]) 0.1 0.1 0.1 0.9) [0..<5]
     @ (let rpm_ratio = rpm dashboard / 8000;
            rpm_ratio = (if rpm_ratio > 1 then 1 else rpm_ratio);
            angle = rpm_ratio * 2 * pi - pi / 2
        in [Line x y (x + size' * 0.6 * cos angle) (y + size' * 0.6 * sin angle)
              0.025 0.0 1.0 0.0 1.0,
            Line x y (x - size' * 0.2 * cos angle * 0.3) (y - size' * 0.2 * sin angle * 0.3)
              0.02 0.0 1.0 0.0 1.0,
            Circle x y (size' * 0.06) 0.0 0.0 0.0 1.0,
            Circle x y (size' * 0.04) 1.0 1.0 1.0 1.0,
            Label x y 0.02 (snprintf 50 ''%.0f'' [ArgDouble (rpm dashboard)]) 0.15 0.15 0.1 0.9,
            Label x (y - size' * 0.25) 0.02 (Str ''RPM'') 0.08 0.0 0.3 0.8,
            Label x (y + size' * 1.2) 0.02 (Str ''TACHOMETER'') 0.15 1.0 0.5 0.0])
     @ (if rpm dashboard > 6000
        then [Label x (y - size' * 1.4) 0.02 (Str ''HIGH RPM!'') 0.12 1.0 0.1 0.1]
        else [])"

definition fuel_prims :: "DashboardData \<Rightarrow> real \<Rightarrow> real \<Rightarrow> real \<Rightarrow> real \<Rightarrow> real \<Rightarrow> prim list" where
  "fuel_prims dashboard blink_timer x y width height =
     (let fuel_width = (fuel dashboard / 100) * width
      in (if fuel_width > 0.01 then
            [Rectangle (x - (width - fuel_width) / 2) y fuel_width (height * 0.8)
               (if fuel dashboard > 50 then 0.2 else 1.0)
               (if fuel dashboard > 20 then 1.0 else 0.2)
               0.2 1.0,
             Rectangle (x - (width - fuel_width) / 2) y fuel_width (height * 0.8) 0.0 0.0 0.0 0.3]
            @ (if fuel dashboard < 20 \<and> fmod (blink_timer + 0.1) 1 > 0.5
               then [Rectangle x y width height 1.0 0.2 0.2 0.3] else [])
          else [Rectangle x y width (height * 0.6) 0.3 0.3 0.3 0.5])
         @ [Label x (y + height * 0.8) 0.02
              (snprintf 50 ''FUEL: %.1f%%'' [ArgDouble (fuel dashboard)]) 0.1 0.1 0.1 1.0]
         @ (if fuel dashboard < 20
            then [Label x (y - height * 0.8) 0.02 (Str ''LOW FUEL!'') 0.12 1.0 0.1 0.1] else [])
         @ map (\<lambda>i. Line (x - width / 2 + (width / 5) * real i) (y - height * 0.4)
                          (x - width / 2 + (width / 5) * real i) (y - height * 0.2)
                          0.02 0.2 0.2 0.3 0.8) [0..<6])"

definition fuel_blink_timer :: "DashboardData \<Rightarrow> real \<Rightarrow> real \<Rightarrow> real" where
  "fuel_blink_timer dashboard blink_timer width =
     (if (fuel dashboard / 100) * width > 0.01 \<and> fuel dashboard < 20
      then blink_timer + 0.1 else blink_timer)"

definition temp_ratio_of :: "DashboardData \<Rightarrow> real" where
  "temp_ratio_of dashboard =
     (let temp_ratio = (temperature dashboard - 60) / (120 - 60);
          temp_ratio = (if temp_ratio < 0 then 0 else temp_ratio)
      in if temp_ratio > 1 then 1 else temp_ratio)"

definition temperature_prims ::
  "DashboardData \<Rightarrow> real \<Rightarrow> real \<Rightarrow> real \<Rightarrow> real \<Rightarrow> real \<Rightarrow> prim list" where
  "temperature_prims dashboard heat_timer x y width height =
     (let temp_ratio = temp_ratio_of dashboard;
          temp_width = temp_ratio * width
      in (if temp_width > 0.01 then
            [Rectangle (x - (width - temp_width) / 2) y temp_width (height * 0.8)
               (if temp_ratio < 0.5 then 0.3 * (1 - temp_ratio / 0.5)
                else if temp_ratio < 0.8 then 0.3 + 0.7 * ((temp_ratio - 0.5) / 0.3)
                else 1.0)
               (if temp_ratio < 0.5 then 0.5 + 0.5 * (temp_ratio / 0.5)
                else if temp_ratio < 0.8 then 1.0 * (1 - 0.2 * ((temp_ratio - 0.5) / 0.3))
                else 0.8 * (1 - (temp_ratio - 0.8) / 0.2))
               (if temp_ratio < 0.5 then 1.0 * (1 - temp_ratio / 0.5)
                else if temp_ratio < 0.8 then 0.5 * (1 - (temp_ratio - 0.5) / 0.3)
                else 0.2 * (1 - (temp_ratio - 0.8) / 0.2))
               1.0,
             Rectangle (x - (width - temp_width) / 2) y temp_width (height * 0.8) 0.0 0.0 0.0 0.3]
            @ (if temperature dashboard > 100
               then [Rectangle x y width height 1.0 0.3 0.3
                       (0.3 + 0.3 * sin ((heat_timer + 0.05) * 5))]
               else [])
          else [Rectangle x y width (height * 0.6) 0.3 0.3 0.3 0.5])
         @ [Label x (y + height * 0.8) 0.02
              (snprintf 50 temp_format [ArgDouble (temperature dashboard)]) 0.1 0.1 0.1 1.0]
         @ (if temperature dashboard > 100
            then [Label x (y - height * 0.8) 0.02 (Str ''OVERHEAT!'') 0.12 1.0 0.1 0.1] else [])
         @ map (\<lambda>i. Line (x - width / 2 + (width / 5) * real i) (y - height * 0.4)
                          (x - width / 2 + (width / 5) * real i) (y - height * 0.2)
                          0.02 0.2 0.2 0.3 0.8) [0..<6]
         @ (let marker_ratio = (temperature dashboard - 60) / (120 - 60)
            in if marker_ratio \<ge> 0 \<and> marker_ratio \<le> 1 then
                 [Line (x - width / 2 + width * marker_ratio) (y - height * 0.4)
                    (x - width / 2 + width * marker_ratio - 0.05) (y - height * 0.2)
                    0.03 0.0 0.0 0.0 0.8,
                  Line (x - width / 2 + width * marker_ratio) (y - height * 0.4)
                    (x - width / 2 + width * marker_ratio + 0.05) (y - height * 0.2)
                    0.03 0.0 0.0 0.0 0.8]
               else []))"

definition temperature_heat_timer :: "DashboardData \<Rightarrow> real \<Rightarrow> real \<Rightarrow> real" where
  "temperature_heat_timer dashboard heat_timer width =
     (if temp_ratio_of dashboard * width > 0.01 \<and> temperature dashboard > 100
      then heat_timer + 0.05 else heat_timer)"

definition overlay_prims ::
  "DashboardData \<Rightarrow> mjModel \<Rightarrow> mjData \<Rightarrow> real \<times> real \<Rightarrow> prim list" where
  "overlay_prims dashboard model data timers =
     [Label 0 (3 - 0.5) 0.5 (Str ''CAR DASHBOARD'') 0.25 0.0 0.5 1.0]
     @ speedometer_prims dashboard (0 - 2.5) (3 - 2.0) 0.8
     @ tachometer_prims dashboard (0 + 2.5) (3 - 2.0) 0.8
     @ fuel_prims dashboard (fst timers) (0 - 2.5) (3 - 3.5) 1.5 0.4
     @ temperature_prims dashboard (snd timers) (0 + 2.5) (3 - 3.5) 1.5 0.4
     @ [Sphere (mocap_pos data 0) (mocap_pos data 1)]
     @ (if mj_name2id model mjOBJ_BODY ''car'' \<ge> 0 then
          [Label (xpos data (3 * nat (mj_name2id model mjOBJ_BODY ''car'') + 0))
                 (xpos data (3 * nat (mj_name2id model mjOBJ_BODY ''car'') + 1))
                 (xpos data (3 * nat (mj_name2id model mjOBJ_BODY ''car'') + 2) + 2.0)
                 (snprintf 50 ''Car: (%.2f, %.2f)''
                    [ArgDouble (xpos data (3 * nat (mj_name2id model mjOBJ_BODY ''car'') + 0)),
                     ArgDouble (xpos data (3 * nat (mj_name2id model mjOBJ_BODY ''car'') + 1))])
                 0.1 0.0 1.0 0.0]
        else [])
     @ [Label (mocap_pos data 0) (mocap_pos data 1) 0.5
          (snprintf 50 ''Goal: (%.2f, %.2f)''
             [ArgDouble (mocap_pos data 0), ArgDouble (mocap_pos data 1)])
          0.1 1.0 0.0 0.0]"

definition overlay_timers :: "DashboardData \<Rightarrow> real \<times> real \<Rightarrow> real \<times> real" where
  "overlay_timers dashboard timers =
     (fuel_blink_timer dashboard (fst timers) 1.5, temperature_heat_timer dashboard (snd timers) 1.5)"

subsection \<open>Reading emitted geoms\<close>

text \<open>
  \<^verbatim>\<open>mjvGeom.mat\<close> is a 3x3 matrix stored by rows; \<open>mat_vec m v\<close> is the image of the
  vector \<open>v\<close> of the geom's local frame.
\<close>

definition mat_vec :: "real list \<Rightarrow> real list \<Rightarrow> real list" where
  "mat_vec m v =
     [m ! 0 * v ! 0 + m ! 1 * v ! 1 + m ! 2 * v ! 2,
      m ! 3 * v ! 0 + m ! 4 * v ! 1 + m ! 5 * v ! 2,
      m ! 6 * v ! 0 + m ! 7 * v ! 1 + m ! 8 * v ! 2]"

fun is_Line :: "prim \<Rightarrow> bool" where
  "is_Line (Line x1 y1 x2 y2 width r g b a) = True"
| "is_Line (Rectangle x y width height r g b a) = False"
| "is_Line (Circle x y radius r g b a) = False"
| "is_Line (Label x y z text size' r g b) = False"
| "is_Line (Sphere goal_x goal_y) = False"

subsection \<open>Concrete inputs\<close>

text \<open>An empty geom slot and a scene of \<open>n\<close> empty slots.\<close>

definition blank_geom :: mjvGeom where
  "blank_geom =
     \<lparr>geom_type = mjGEOM_NONE, geom_size = [0, 0, 0], geom_pos = [0, 0, 0],
      geom_mat = [1, 0, 0, 0, 1, 0, 0, 0, 1], geom_rgba = [0, 0, 0, 0],
      geom_label = Str [], geom_category = mjCAT_STATIC\<rparr>"

definition blank_scene :: "nat \<Rightarrow> mjvScene" where
  "blank_scene n = \<lparr>maxgeom = int n, ngeom = 0, geoms = replicate n blank_geom\<rparr>"

text \<open>
  A generator whose state is a counter: the draw is the point of the interval at the
  fraction \<open>(gen mod 4) / 4\<close>.
\<close>

definition example_uniform :: "nat uniform" where
  "example_uniform gen lo hi = (lo + (hi - lo) * (real (gen mod 4) / 4), Suc gen)"

text \<open>
  Simulation data with the car at the origin, moving along \<open>x\<close> at \<open>vx\<close>, and the goal at
  \<open>(goal_x, goal_y)\<close>.
\<close>

definition example_data :: "real \<Rightarrow> real \<Rightarrow> real \<Rightarrow> mjData" where
  "example_data vx goal_x goal_y =
     \<lparr>qpos = (\<lambda>i. 0), qvel = (\<lambda>i. 0)(0 := vx), mocap_pos = (\<lambda>i. 0)(0 := goal_x, 1 := goal_y),
      ctrl = (\<lambda>i. 0), xpos = (\<lambda>i. 0), time = 0\<rparr>"

text \<open>A model whose body 1 is named \<^verbatim>\<open>car\<close>.\<close>

definition example_model :: mjModel where
  "example_model =
     \<lparr>names = (\<lambda>type name. if type = mjOBJ_BODY \<and> name = ''car'' then Some 1 else None)\<rparr>"

text \<open>The dashboard after one update with the car at rest.\<close>

definition resting_dashboard :: DashboardData where
  "resting_dashboard =
     \<lparr>speed_kmh = 0, rpm = 800, fuel = 99.999, temperature = 66, simulated_fuel = 99.999\<rparr>"

section \<open>Properties\<close>

subsection \<open>Properties of the append calls\<close>

lemma emit_append_geom: "emit p scene = append_geom (write_geom p) scene"
  by (cases p)
     (simp_all add: Draw2DRectangle_def Draw2DLine_def Draw2DCircle_def AddLabel_def
        GoalMarker_def append_geom_def Let_def)

lemma emit_full: "maxgeom scene \<le> ngeom scene \<Longrightarrow> emit p scene = scene"
  by (simp add: emit_append_geom append_geom_def)

lemma emit_all_Nil: "emit_all [] scene = scene"
  by (simp add: emit_all_def)

lemma emit_all_Cons: "emit_all (p # ps) scene = emit_all ps (emit p scene)"
  by (simp add: emit_all_def)

lemma emit_all_append: "emit_all (ps @ qs) scene = emit_all qs (emit_all ps scene)"
  by (simp add: emit_all_def)

lemma emit_all_full: "maxgeom scene \<le> ngeom scene \<Longrightarrow> emit_all ps scene = scene"
  by (induction ps) (simp_all add: emit_all_Nil emit_all_Cons emit_full)

lemma maxgeom_emit: "maxgeom (emit p scene) = maxgeom scene"
  by (simp add: emit_append_geom append_geom_def)

lemma maxgeom_emit_all: "maxgeom (emit_all ps scene) = maxgeom scene"
  by (induction ps arbitrary: scene) (simp_all add: emit_all_Nil emit_all_Cons maxgeom_emit)

lemma ngeom_emit:
  "ngeom (emit p scene) = (if maxgeom scene \<le> ngeom scene then ngeom scene else ngeom scene + 1)"
  by (simp add: emit_append_geom append_geom_def)

lemma length_geoms_emit: "length (geoms (emit p scene)) = length (geoms scene)"
  by (simp add: emit_append_geom append_geom_def)

lemma scene_ok_emit: "scene_ok scene \<Longrightarrow> scene_ok (emit p scene)"
  by (simp add: scene_ok_def ngeom_emit maxgeom_emit length_geoms_emit)

lemma scene_ok_emit_all: "scene_ok scene \<Longrightarrow> scene_ok (emit_all ps scene)"
  by (induction ps arbitrary: scene) (simp_all add: emit_all_Nil emit_all_Cons scene_ok_emit)

lemma ngeom_emit_all:
  "ngeom scene \<le> maxgeom scene \<Longrightarrow>
   ngeom (emit_all ps scene) = min (maxgeom scene) (ngeom scene + int (length ps))"
proof (induction ps arbitrary: scene)
  case Nil
  then show ?case by (simp add: emit_all_Nil)
next
  case (Cons p ps)
  have le: "ngeom (emit p scene) \<le> maxgeom (emit p scene)"
    using Cons.prems by (simp add: ngeom_emit maxgeom_emit)
  show ?case
    using Cons.prems Cons.IH [OF le]
    by (auto simp add: emit_all_Cons ngeom_emit maxgeom_emit min_def)
qed

lemma free_slots_emit:
  "ngeom scene < maxgeom scene \<Longrightarrow> free_slots (emit p scene) = free_slots scene - 1"
  by (simp add: free_slots_def ngeom_emit maxgeom_emit nat_diff_distrib')

lemma emit_all_take: "emit_all ps scene = emit_all (take (free_slots scene) ps) scene"
proof (induction ps arbitrary: scene)
  case Nil
  then show ?case by simp
next
  case (Cons p ps)
  show ?case
  proof (cases "maxgeom scene \<le> ngeom scene")
    case True
    then show ?thesis by (simp add: emit_all_full)
  next
    case False
    then have lt: "ngeom scene < maxgeom scene" by simp
    then obtain k where k: "free_slots scene = Suc k"
      by (cases "free_slots scene") (simp_all add: free_slots_def)
    have "free_slots (emit p scene) = k"
      using free_slots_emit [OF lt, of p] k by simp
    with Cons.IH [of "emit p scene"] k show ?thesis
      by (simp add: emit_all_Cons)
  qed
qed

lemma geoms_emit_below:
  "i < nat (ngeom scene) \<Longrightarrow> 0 \<le> ngeom scene \<Longrightarrow> geoms (emit p scene) ! i = geoms scene ! i"
  by (auto simp add: emit_append_geom append_geom_def)

lemma geoms_emit_above:
  "nat (ngeom scene) < i \<Longrightarrow> geoms (emit p scene) ! i = geoms scene ! i"
  by (simp add: emit_append_geom append_geom_def)

lemma geoms_emit_all_below:
  "i < nat (ngeom scene) \<Longrightarrow> 0 \<le> ngeom scene \<Longrightarrow> geoms (emit_all ps scene) ! i = geoms scene ! i"
proof (induction ps arbitrary: scene)
  case Nil
  then show ?case by (simp add: emit_all_Nil)
next
  case (Cons p ps)
  have "i < nat (ngeom (emit p scene))" "0 \<le> ngeom (emit p scene)"
    using Cons.prems by (auto simp add: ngeom_emit)
  then have "geoms (emit_all ps (emit p scene)) ! i = geoms (emit p scene) ! i"
    by (rule Cons.IH)
  then show ?case
    using Cons.prems by (simp add: emit_all_Cons geoms_emit_below)
qed

lemma geoms_emit_here:
  "scene_ok scene \<Longrightarrow> ngeom scene < maxgeom scene \<Longrightarrow>
   geoms (emit p scene) ! nat (ngeom scene) = write_geom p (geoms scene ! nat (ngeom scene))"
  by (simp add: emit_append_geom append_geom_def scene_ok_def)

lemma geoms_emit_all_nth:
  "scene_ok scene \<Longrightarrow> k < length ps \<Longrightarrow> k < free_slots scene \<Longrightarrow>
   geoms (emit_all ps scene) ! (nat (ngeom scene) + k) =
     write_geom (ps ! k) (geoms scene ! (nat (ngeom scene) + k))"
proof (induction ps arbitrary: scene k)
  case Nil
  then show ?case by simp
next
  case (Cons p ps)
  have lt: "ngeom scene < maxgeom scene"
    using Cons.prems(3) by (simp add: free_slots_def)
  have ok: "scene_ok (emit p scene)"
    using Cons.prems(1) by (rule scene_ok_emit)
  have ng: "ngeom (emit p scene) = ngeom scene + 1"
    using lt by (simp add: ngeom_emit)
  have nn: "0 \<le> ngeom scene"
    using Cons.prems(1) by (simp add: scene_ok_def)
  show ?case
  proof (cases k)
    case 0
    have "geoms (emit_all ps (emit p scene)) ! nat (ngeom scene) =
          geoms (emit p scene) ! nat (ngeom scene)"
      using nn ng by (intro geoms_emit_all_below) simp_all
    then show ?thesis
      using 0 Cons.prems(1) lt by (simp add: emit_all_Cons geoms_emit_here)
  next
    case (Suc j)
    have j1: "j < length ps" using Cons.prems(2) Suc by simp
    have j2: "j < free_slots (emit p scene)"
      using Cons.prems(3) Suc free_slots_emit [OF lt, of p] by simp
    have idx: "nat (ngeom (emit p scene)) + j = nat (ngeom scene) + k"
      using ng nn Suc by (simp add: nat_add_distrib)
    have "geoms (emit_all ps (emit p scene)) ! (nat (ngeom (emit p scene)) + j) =
          write_geom (ps ! j) (geoms (emit p scene) ! (nat (ngeom (emit p scene)) + j))"
      using ok j1 j2 by (rule Cons.IH)
    moreover have "geoms (emit p scene) ! (nat (ngeom scene) + k) = geoms scene ! (nat (ngeom scene) + k)"
      using Suc by (intro geoms_emit_above) simp
    ultimately show ?thesis
      using Suc by (simp add: emit_all_Cons idx)
  qed
qed


subsection \<open>Capacity of the scene buffer\<close>

lemma scene_ok_blank_scene: "scene_ok (blank_scene n)"
  by (simp add: scene_ok_def blank_scene_def)

text \<open>
  C1. Against a scene whose count is within its capacity, any sequence of append calls
  (rectangle, line, circle, label, goal-marker sphere) leaves \<open>ngeom \<le> maxgeom\<close> and
  \<open>maxgeom\<close> as it was; an append against a full scene returns the scene unchanged; the
  result of the whole sequence is the result of its first \<open>maxgeom - ngeom\<close> calls, the
  \<open>k\<close>-th of which writes its primitive into slot \<open>ngeom + k\<close>, and the slots in use
  before stay as they were.
\<close>

theorem append_calls_bounded_by_capacity:
  assumes "scene_ok scene"
  shows "ngeom (emit_all ps scene) \<le> maxgeom scene
    \<and> maxgeom (emit_all ps scene) = maxgeom scene
    \<and> ngeom (emit_all ps scene) = min (maxgeom scene) (ngeom scene + int (length ps))
    \<and> emit_all ps scene = emit_all (take (free_slots scene) ps) scene
    \<and> (\<forall>k. k < length ps \<and> k < free_slots scene \<longrightarrow>
          geoms (emit_all ps scene) ! (nat (ngeom scene) + k) =
            write_geom (ps ! k) (geoms scene ! (nat (ngeom scene) + k)))
    \<and> (\<forall>i. i < nat (ngeom scene) \<longrightarrow> geoms (emit_all ps scene) ! i = geoms scene ! i)
    \<and> (\<forall>p full. maxgeom full \<le> ngeom full \<longrightarrow> emit p full = full)"
proof -
  have le: "ngeom scene \<le> maxgeom scene" and nn: "0 \<le> ngeom scene"
    using assms by (simp_all add: scene_ok_def)
  have n: "ngeom (emit_all ps scene) = min (maxgeom scene) (ngeom scene + int (length ps))"
    using le by (rule ngeom_emit_all)
  have "ngeom (emit_all ps scene) \<le> maxgeom scene"
    unfolding n by simp
  moreover have "emit_all ps scene = emit_all (take (free_slots scene) ps) scene"
    by (rule emit_all_take)
  moreover have "\<forall>k. k < length ps \<and> k < free_slots scene \<longrightarrow>
      geoms (emit_all ps scene) ! (nat (ngeom scene) + k) =
        write_geom (ps ! k) (geoms scene ! (nat (ngeom scene) + k))"
    using assms by (simp add: geoms_emit_all_nth)
  moreover have "\<forall>i. i < nat (ngeom scene) \<longrightarrow> geoms (emit_all ps scene) ! i = geoms scene ! i"
    using nn by (simp add: geoms_emit_all_below)
  moreover have "\<forall>p full. maxgeom full \<le> ngeom full \<longrightarrow> emit p full = full"
    by (simp add: emit_full)
  ultimately show ?thesis
    using n by (simp add: maxgeom_emit_all)
qed

theorem append_calls_bounded_by_capacity_witness:
  "scene_ok (blank_scene 2)
   \<and> ngeom (emit_all [Rectangle 0 0 1 1 1 0 0 1, Label 0 0 0 (Str ''a'') 1 0 0 0,
                      Circle 0 0 1 0 1 0 1] (blank_scene 2)) = 2
   \<and> emit_all [Rectangle 0 0 1 1 1 0 0 1, Label 0 0 0 (Str ''a'') 1 0 0 0,
              Circle 0 0 1 0 1 0 1] (blank_scene 2)
     = emit_all [Rectangle 0 0 1 1 1 0 0 1, Label 0 0 0 (Str ''a'') 1 0 0 0] (blank_scene 2)
   \<and> geom_type (geoms (emit_all [Rectangle 0 0 1 1 1 0 0 1, Label 0 0 0 (Str ''a'') 1 0 0 0,
                      Circle 0 0 1 0 1 0 1] (blank_scene 2)) ! 1) = mjGEOM_LABEL"
proof -
  let ?ps = "[Rectangle 0 0 1 1 1 0 0 1, Label 0 0 0 (Str ''a'') 1 0 0 0, Circle 0 0 1 0 1 0 1]"
  have ok: "scene_ok (blank_scene 2)"
    by (simp add: scene_ok_def blank_scene_def)
  note inst = append_calls_bounded_by_capacity [OF ok, of ?ps]
  have free: "free_slots (blank_scene 2) = 2"
    by (simp add: free_slots_def blank_scene_def)
  have idx: "nat (ngeom (blank_scene 2)) + 1 = 1"
    by (simp add: blank_scene_def)
  have "1 < length ?ps \<and> (1::nat) < free_slots (blank_scene 2)"
    using free by simp
  with inst have "geoms (emit_all ?ps (blank_scene 2)) ! (nat (ngeom (blank_scene 2)) + 1) =
          write_geom (?ps ! 1) (geoms (blank_scene 2) ! (nat (ngeom (blank_scene 2)) + 1))"
    by blast
  then have "geoms (emit_all ?ps (blank_scene 2)) ! 1 =
          write_geom (?ps ! 1) (geoms (blank_scene 2) ! 1)"
    unfolding idx .
  then have "geom_type (geoms (emit_all ?ps (blank_scene 2)) ! 1) = mjGEOM_LABEL"
    by simp
  moreover have "ngeom (emit_all ?ps (blank_scene 2)) = 2"
  proof -
    have "ngeom (emit_all ?ps (blank_scene 2)) =
        min (maxgeom (blank_scene 2)) (ngeom (blank_scene 2) + int (length ?ps))"
      using inst by blast
    also have "\<dots> = 2"
      by (simp add: blank_scene_def)
    finally show ?thesis .
  qed
  moreover have "emit_all ?ps (blank_scene 2) = emit_all (take 2 ?ps) (blank_scene 2)"
  proof -
    have "emit_all ?ps (blank_scene 2) =
        emit_all (take (free_slots (blank_scene 2)) ?ps) (blank_scene 2)"
      using inst by blast
    then show ?thesis
      unfolding free .
  qed
  moreover have "take 2 ?ps = [Rectangle 0 0 1 1 1 0 0 1, Label 0 0 0 (Str ''a'') 1 0 0 0]"
    by simp
  ultimately show ?thesis
    using ok by simp
qed

subsection \<open>Ranges of the telemetry\<close>

lemma UpdateDashboardData_speed_kmh:
  "speed_kmh (fst (UpdateDashboardData data st)) =
     sqrt (qvel data 0 * qvel data 0 + qvel data 1 * qvel data 1) * 3.6"
  by (simp add: UpdateDashboardData_def Let_def)

lemma UpdateDashboardData_rpm:
  "rpm (fst (UpdateDashboardData data st)) =
     (let r = sqrt (qvel data 0 * qvel data 0 + qvel data 1 * qvel data 1) * 3.6 * 40 + 800
      in if r > 8000 then 8000 else if r < 800 then 800 else r)"
  by (simp add: UpdateDashboardData_def Let_def)

lemma UpdateDashboardData_simulated_fuel:
  "simulated_fuel (fst (UpdateDashboardData data st)) =
     (if simulated_fuel (fst st) - 0.001 < 0 then 100 else simulated_fuel (fst st) - 0.001)"
  by (simp add: UpdateDashboardData_def Let_def)

lemma UpdateDashboardData_fuel:
  "fuel (fst (UpdateDashboardData data st)) = simulated_fuel (fst (UpdateDashboardData data st))"
  by (simp add: UpdateDashboardData_def Let_def)

lemma UpdateDashboardData_temperature:
  "temperature (fst (UpdateDashboardData data st)) =
     (let t = 60 + (rpm (fst (UpdateDashboardData data st)) / 8000) * 60
      in if t > 120 then 120 else t)"
  by (simp add: UpdateDashboardData_def Let_def)

lemma speed_nonneg: "0 \<le> speed_kmh (fst (UpdateDashboardData data st))"
  by (simp add: UpdateDashboardData_speed_kmh)

lemma rpm_range:
  "800 \<le> rpm (fst (UpdateDashboardData data st)) \<and> rpm (fst (UpdateDashboardData data st)) \<le> 8000"
  by (simp add: UpdateDashboardData_rpm Let_def)

lemma temperature_range:
  "60 \<le> temperature (fst (UpdateDashboardData data st)) \<and>
   temperature (fst (UpdateDashboardData data st)) \<le> 120"
  using rpm_range [of data st]
  by (simp add: UpdateDashboardData_temperature Let_def)

lemma fuel_step:
  "simulated_fuel (fst st) \<le> 100 \<Longrightarrow>
   0 \<le> simulated_fuel (fst (UpdateDashboardData data st)) \<and>
   simulated_fuel (fst (UpdateDashboardData data st)) \<le> 100"
  by (simp add: UpdateDashboardData_simulated_fuel)

lemma fuel_fold:
  "simulated_fuel (fst st) \<le> 100 \<Longrightarrow>
   simulated_fuel (fst (fold UpdateDashboardData datas st)) \<le> 100"
proof (induction datas arbitrary: st)
  case Nil
  then show ?case by simp
next
  case (Cons d ds)
  have "simulated_fuel (fst (UpdateDashboardData d st)) \<le> 100"
    using fuel_step [OF Cons.prems] by simp
  then show ?case
    using Cons.IH by simp
qed

text \<open>
  C2. After every call of \<^verbatim>\<open>UpdateDashboardData\<close>, whatever velocities the calls so far
  have read (the task starts from the default members): \<open>speed_kmh \<ge> 0\<close>, \<open>rpm\<close> is in
  \<open>[800, 8000]\<close>, \<open>temperature\<close> in \<open>[60, 120]\<close> and \<open>fuel\<close> in \<open>[0, 100]\<close>.
\<close>

theorem telemetry_ranges:
  "0 \<le> speed_kmh (fst (fold UpdateDashboardData (datas @ [data]) (DashboardData_init, out)))
   \<and> 800 \<le> rpm (fst (fold UpdateDashboardData (datas @ [data]) (DashboardData_init, out)))
   \<and> rpm (fst (fold UpdateDashboardData (datas @ [data]) (DashboardData_init, out))) \<le> 8000
   \<and> 60 \<le> temperature (fst (fold UpdateDashboardData (datas @ [data]) (DashboardData_init, out)))
   \<and> temperature (fst (fold UpdateDashboardData (datas @ [data]) (DashboardData_init, out))) \<le> 120
   \<and> 0 \<le> fuel (fst (fold UpdateDashboardData (datas @ [data]) (DashboardData_init, out)))
   \<and> fuel (fst (fold UpdateDashboardData (datas @ [data]) (DashboardData_init, out))) \<le> 100"
proof -
  let ?st = "fold UpdateDashboardData datas (DashboardData_init, out)"
  have "simulated_fuel (fst ?st) \<le> 100"
    by (rule fuel_fold) (simp add: DashboardData_init_def)
  then have "0 \<le> fuel (fst (UpdateDashboardData data ?st)) \<and> fuel (fst (UpdateDashboardData data ?st)) \<le> 100"
    using fuel_step [of ?st data] by (simp add: UpdateDashboardData_fuel)
  then show ?thesis
    using speed_nonneg [of data ?st] rpm_range [of data ?st] temperature_range [of data ?st]
    by simp
qed

subsection \<open>The goal transition\<close>

lemma goal_distance:
  "mju_norm (mju_sub [gx, gy] [cx, cy] 2) 2 = sqrt ((gx - cx)\<^sup>2 + (gy - cy)\<^sup>2)"
  by (simp add: mju_norm_def mju_sub_def power2_eq_square upt_rec [of 0] upt_rec [of 1] eval_nat_numeral)

lemma UpdateDashboardData_cong:
  "qvel data1 = qvel data2 \<Longrightarrow> time data1 = time data2 \<Longrightarrow>
   UpdateDashboardData data1 st = UpdateDashboardData data2 st"
  by (simp add: UpdateDashboardData_def)

lemma TransitionLocked_reached:
  "sqrt ((mocap_pos data 0 - qpos data 0)\<^sup>2 + (mocap_pos data 1 - qpos data 1)\<^sup>2) < 0.2 \<Longrightarrow>
   fst (TransitionLocked Uniform gen data st) =
     data\<lparr>mocap_pos := (mocap_pos data)
        (0 := fst (Uniform gen (- 2) 2),
         1 := fst (Uniform (snd (Uniform gen (- 2) 2)) (- 2) 2),
         2 := 0.01)\<rparr>"
  by (simp add: TransitionLocked_def goal_distance Let_def split_beta)

lemma TransitionLocked_seeking:
  "0.2 \<le> sqrt ((mocap_pos data 0 - qpos data 0)\<^sup>2 + (mocap_pos data 1 - qpos data 1)\<^sup>2) \<Longrightarrow>
   fst (TransitionLocked Uniform gen data st) = data"
  by (simp add: TransitionLocked_def goal_distance Let_def split_beta)

lemma TransitionLocked_qvel_time:
  "qvel (fst (TransitionLocked Uniform gen data st)) = qvel data \<and>
   time (fst (TransitionLocked Uniform gen data st)) = time data"
  by (simp add: TransitionLocked_def Let_def split_beta)

lemma TransitionLocked_telemetry:
  "snd (TransitionLocked Uniform gen data st) = UpdateDashboardData data st"
proof -
  have "snd (TransitionLocked Uniform gen data st) =
        UpdateDashboardData (fst (TransitionLocked Uniform gen data st)) st"
    by (simp add: TransitionLocked_def Let_def)
  also have "\<dots> = UpdateDashboardData data st"
    using TransitionLocked_qvel_time [of Uniform gen data st]
    by (intro UpdateDashboardData_cong) simp_all
  finally show ?thesis .
qed

lemma uniform_draw_range:
  "uniform_in_range Uniform \<Longrightarrow>
   - 2 \<le> fst (Uniform gen (- 2) 2) \<and> fst (Uniform gen (- 2) 2) < 2"
  unfolding uniform_in_range_def by simp

text \<open>
  C5. On every call of \<^verbatim>\<open>TransitionLocked\<close>: when the planar distance from the car
  \<open>(qpos[0], qpos[1])\<close> to the goal \<open>(mocap_pos[0], mocap_pos[1])\<close> is below \<open>0.2\<close>, the
  goal's \<open>x\<close> and \<open>y\<close> become the first and the second value drawn from
  \<^verbatim>\<open>Uniform(gen, -2, 2)\<close>, both within \<open>[-2, 2]\<close>, and its \<open>z\<close> becomes \<open>0.01\<close>, nothing else
  in the simulation data changing; when the distance is at least \<open>0.2\<close> the simulation
  data is unchanged; in both cases the telemetry is updated from the velocity and time
  of the data, which the transition leaves as they were.
\<close>

theorem TransitionLocked_goal:
  assumes "uniform_in_range Uniform"
  shows "(sqrt ((mocap_pos data 0 - qpos data 0)\<^sup>2 + (mocap_pos data 1 - qpos data 1)\<^sup>2) < 0.2 \<longrightarrow>
            fst (TransitionLocked Uniform gen data st) =
              data\<lparr>mocap_pos := (mocap_pos data)
                 (0 := fst (Uniform gen (- 2) 2),
                  1 := fst (Uniform (snd (Uniform gen (- 2) 2)) (- 2) 2),
                  2 := 0.01)\<rparr>
          \<and> - 2 \<le> mocap_pos (fst (TransitionLocked Uniform gen data st)) 0
          \<and> mocap_pos (fst (TransitionLocked Uniform gen data st)) 0 \<le> 2
          \<and> - 2 \<le> mocap_pos (fst (TransitionLocked Uniform gen data st)) 1
          \<and> mocap_pos (fst (TransitionLocked Uniform gen data st)) 1 \<le> 2
          \<and> mocap_pos (fst (TransitionLocked Uniform gen data st)) 2 = 0.01)
       \<and> (0.2 \<le> sqrt ((mocap_pos data 0 - qpos data 0)\<^sup>2 + (mocap_pos data 1 - qpos data 1)\<^sup>2) \<longrightarrow>
            fst (TransitionLocked Uniform gen data st) = data)
       \<and> snd (TransitionLocked Uniform gen data st) = UpdateDashboardData data st
       \<and> qvel (fst (TransitionLocked Uniform gen data st)) = qvel data
       \<and> time (fst (TransitionLocked Uniform gen data st)) = time data"
proof -
  have r0: "- 2 \<le> fst (Uniform gen (- 2) 2) \<and> fst (Uniform gen (- 2) 2) < 2"
    using assms by (rule uniform_draw_range)
  have r1: "- 2 \<le> fst (Uniform (snd (Uniform gen (- 2) 2)) (- 2) 2) \<and>
            fst (Uniform (snd (Uniform gen (- 2) 2)) (- 2) 2) < 2"
    using assms by (rule uniform_draw_range)
  show ?thesis
    using r0 r1
    by (simp add: TransitionLocked_reached TransitionLocked_seeking TransitionLocked_telemetry
          TransitionLocked_qvel_time)
qed



lemma example_uniform_in_range: "uniform_in_range example_uniform"
proof -
  have "lo + (hi - lo) * (real (gen mod 4) / 4) < hi" if "lo < hi" for lo hi :: real and gen :: nat
  proof -
    have "real (gen mod 4) / 4 < 1" by simp
    then have "(hi - lo) * (real (gen mod 4) / 4) < (hi - lo) * 1"
      using that by (intro mult_strict_left_mono) simp_all
    then show ?thesis by simp
  qed
  moreover have "lo \<le> lo + (hi - lo) * (real (gen mod 4) / 4)" if "lo < hi" for lo hi :: real and gen :: nat
    using that by simp
  ultimately show ?thesis
    by (simp add: uniform_in_range_def example_uniform_def)
qed

theorem TransitionLocked_goal_witness:
  "uniform_in_range example_uniform
   \<and> map (mocap_pos (fst (TransitionLocked example_uniform 1 (example_data 0 0 0) (DashboardData_init, []))))
       [0, 1, 2] = [- 1, 0, 0.01]
   \<and> fst (TransitionLocked example_uniform 1 (example_data 0 1 0) (DashboardData_init, [])) =
       example_data 0 1 0"
proof -
  note near = TransitionLocked_goal [OF example_uniform_in_range, of "example_data 0 0 0" 1 "(DashboardData_init, [])"]
  note far = TransitionLocked_goal [OF example_uniform_in_range, of "example_data 0 1 0" 1 "(DashboardData_init, [])"]
  have "sqrt ((mocap_pos (example_data 0 0 0) 0 - qpos (example_data 0 0 0) 0)\<^sup>2 +
              (mocap_pos (example_data 0 0 0) 1 - qpos (example_data 0 0 0) 1)\<^sup>2) < 0.2"
    by (simp add: example_data_def)
  with near have "fst (TransitionLocked example_uniform 1 (example_data 0 0 0) (DashboardData_init, [])) =
      (example_data 0 0 0)\<lparr>mocap_pos := (mocap_pos (example_data 0 0 0))
                 (0 := fst (example_uniform 1 (- 2) 2),
                  1 := fst (example_uniform (snd (example_uniform 1 (- 2) 2)) (- 2) 2),
                  2 := 0.01)\<rparr>"
    by blast
  then have a: "map (mocap_pos (fst (TransitionLocked example_uniform 1 (example_data 0 0 0) (DashboardData_init, []))))
       [0, 1, 2] = [- 1, 0, 0.01]"
    by (simp add: example_uniform_def)
  have "0.2 \<le> sqrt ((mocap_pos (example_data 0 1 0) 0 - qpos (example_data 0 1 0) 0)\<^sup>2 +
              (mocap_pos (example_data 0 1 0) 1 - qpos (example_data 0 1 0) 1)\<^sup>2)"
    by (simp add: example_data_def)
  with far have b: "fst (TransitionLocked example_uniform 1 (example_data 0 1 0) (DashboardData_init, [])) =
       example_data 0 1 0"
    by blast
  show ?thesis
    using a b example_uniform_in_range by simp
qed


subsection \<open>The gauges and the overlay pass as sequences of append calls\<close>

lemma emit_Rectangle_fun:
  "emit (Rectangle x y w h r g b a) = (\<lambda>scene. Draw2DRectangle scene x y w h r g b a)"
  by (rule ext) simp

lemma emit_Line_fun:
  "emit (Line x1 y1 x2 y2 w r g b a) = (\<lambda>scene. Draw2DLine scene x1 y1 x2 y2 w r g b a)"
  by (rule ext) simp

lemma emit_Circle_fun:
  "emit (Circle x y rad r g b a) = (\<lambda>scene. Draw2DCircle scene x y rad r g b a)"
  by (rule ext) simp

lemma emit_Label_fun:
  "emit (Label x y z text sz r g b) = (\<lambda>scene. AddLabel scene x y z text sz r g b)"
  by (rule ext) simp

lemma emit_Sphere_fun:
  "emit (Sphere gx gy) = (\<lambda>scene. GoalMarker scene gx gy)"
  by (rule ext) simp

lemmas emit_fun = emit_Rectangle_fun emit_Line_fun emit_Circle_fun emit_Label_fun emit_Sphere_fun

lemma emit_all_fold_map: "emit_all (map f xs) scene = fold (\<lambda>i. emit (f i)) xs scene"
  by (simp add: emit_all_def fold_map comp_def)

lemma DrawSpeedometer2D_prims:
  "DrawSpeedometer2D dashboard scene x y size' = emit_all (speedometer_prims dashboard x y size') scene"
  unfolding DrawSpeedometer2D_def speedometer_prims_def Let_def
  by (simp only: emit_all_append emit_all_Cons emit_all_Nil emit_all_fold_map emit_fun emit.simps)

lemma DrawTachometer2D_prims:
  "DrawTachometer2D dashboard scene x y size' = emit_all (tachometer_prims dashboard x y size') scene"
  unfolding DrawTachometer2D_def tachometer_prims_def Let_def
  by (simp only: emit_all_append emit_all_Cons emit_all_Nil emit_all_fold_map emit_fun emit.simps
        if_distrib [of "\<lambda>ps. emit_all ps s" for s] split: if_split)


lemma DrawFuelGauge2D_prims:
  "DrawFuelGauge2D dashboard blink_timer scene x y width height =
     (emit_all (fuel_prims dashboard blink_timer x y width height) scene,
      fuel_blink_timer dashboard blink_timer width)"
  unfolding DrawFuelGauge2D_def fuel_prims_def fuel_blink_timer_def Let_def
  by (simp add: emit_all_append emit_all_Cons emit_all_Nil emit_all_fold_map emit_fun)

lemma DrawTemperatureGauge2D_prims:
  "DrawTemperatureGauge2D dashboard heat_timer scene x y width height =
     (emit_all (temperature_prims dashboard heat_timer x y width height) scene,
      temperature_heat_timer dashboard heat_timer width)"
  unfolding DrawTemperatureGauge2D_def temperature_prims_def temperature_heat_timer_def
    temp_ratio_of_def Let_def
  by (simp add: emit_all_append emit_all_Cons emit_all_Nil emit_all_fold_map emit_fun)

lemma ModifyScene_prims:
  "maxgeom scene \<noteq> 0 \<Longrightarrow>
   ModifyScene dashboard model data (Some scene) timers =
     (Some (emit_all (overlay_prims dashboard model data timers) scene),
      overlay_timers dashboard timers)"
  unfolding ModifyScene_def overlay_prims_def overlay_timers_def Let_def
  by (simp add: DrawSpeedometer2D_prims DrawTachometer2D_prims DrawFuelGauge2D_prims
        DrawTemperatureGauge2D_prims emit_all_append emit_all_Cons emit_all_Nil)

subsection \<open>The overlay pass\<close>

text \<open>
  C8. When the scene pointer is null or the scene has \<open>maxgeom = 0\<close>, \<^verbatim>\<open>ModifyScene\<close>
  returns at once: the scene and the static timers are what they were, so no primitive
  is appended and no state changes.
\<close>

theorem ModifyScene_skipped:
  assumes "scene = None \<or> (\<exists>s. scene = Some s \<and> maxgeom s = 0)"
  shows "ModifyScene dashboard model data scene timers = (scene, timers)"
  using assms by (auto simp add: ModifyScene_def)

theorem ModifyScene_skipped_witness:
  "ModifyScene resting_dashboard example_model (example_data 0 1 1) None (0, 0) = (None, (0, 0))
   \<and> maxgeom (blank_scene 0) = 0
   \<and> ModifyScene resting_dashboard example_model (example_data 0 1 1) (Some (blank_scene 0)) (0, 0)
       = (Some (blank_scene 0), (0, 0))"
proof -
  have z: "maxgeom (blank_scene 0) = 0"
    by (simp add: blank_scene_def)
  have a: "(None :: mjvScene option) = None \<or> (\<exists>s. (None :: mjvScene option) = Some s \<and> maxgeom s = 0)"
    by simp
  have b: "Some (blank_scene 0) = None \<or> (\<exists>s. Some (blank_scene 0) = Some s \<and> maxgeom s = 0)"
    using z by simp
  show ?thesis
    using ModifyScene_skipped [OF a, of resting_dashboard example_model "example_data 0 1 1" "(0, 0)"]
      ModifyScene_skipped [OF b, of resting_dashboard example_model "example_data 0 1 1" "(0, 0)"] z
    by simp
qed

lemma category_write_geom: "geom_category (write_geom p geom) = mjCAT_DECOR"
  by (cases p) simp_all

lemma emitted_geoms_decor:
  assumes ok: "scene_ok scene" and lo: "ngeom scene \<le> i" and hi: "i < ngeom (emit_all ps scene)"
  shows "geom_category (geoms (emit_all ps scene) ! nat i) = mjCAT_DECOR"
proof -
  have nn: "0 \<le> ngeom scene" and le: "ngeom scene \<le> maxgeom scene"
    using ok by (simp_all add: scene_ok_def)
  have n: "ngeom (emit_all ps scene) = min (maxgeom scene) (ngeom scene + int (length ps))"
    using le by (rule ngeom_emit_all)
  define k where "k = nat i - nat (ngeom scene)"
  have idx: "nat i = nat (ngeom scene) + k"
    using lo nn by (simp add: k_def)
  have k1: "k < length ps"
    using hi lo nn unfolding n k_def by auto
  have k2: "k < free_slots scene"
    using hi lo nn unfolding n k_def free_slots_def by auto
  show ?thesis
    unfolding idx using geoms_emit_all_nth [OF ok k1 k2]
    by (simp add: category_write_geom)
qed

lemma GoalMarker_geom:
  assumes "scene_ok s" and "ngeom s < maxgeom s"
  shows "geom_type (geoms (GoalMarker s gx gy) ! nat (ngeom s)) = mjGEOM_SPHERE \<and>
         geom_category (geoms (GoalMarker s gx gy) ! nat (ngeom s)) = mjCAT_DECOR"
  using geoms_emit_here [OF assms, of "Sphere gx gy"] by simp

text \<open>
  C10. Every geom that one overlay pass appends to the scene (the slots from the count
  before the pass up to the count after it) has the category \<^verbatim>\<open>mjCAT_DECOR\<close>; and the
  goal-marker block writes a geom of type \<^verbatim>\<open>mjGEOM_SPHERE\<close> whose category is
  \<^verbatim>\<open>mjCAT_DECOR\<close> as well.
\<close>

theorem overlay_geoms_are_decor:
  assumes "scene_ok scene"
    and "ModifyScene dashboard model data (Some scene) timers = (Some scene', timers')"
  shows "(\<forall>i. ngeom scene \<le> i \<and> i < ngeom scene' \<longrightarrow>
            geom_category (geoms scene' ! nat i) = mjCAT_DECOR)
       \<and> (\<forall>s gx gy. scene_ok s \<and> ngeom s < maxgeom s \<longrightarrow>
            geom_type (geoms (GoalMarker s gx gy) ! nat (ngeom s)) = mjGEOM_SPHERE \<and>
            geom_category (geoms (GoalMarker s gx gy) ! nat (ngeom s)) = mjCAT_DECOR)"
proof (cases "maxgeom scene = 0")
  case True
  then have "scene' = scene"
    using assms(2) by (simp add: ModifyScene_def)
  then show ?thesis
    using GoalMarker_geom by auto
next
  case False
  then have "scene' = emit_all (overlay_prims dashboard model data timers) scene"
    using assms(2) by (simp add: ModifyScene_prims)
  then show ?thesis
    using assms(1) by (simp add: emitted_geoms_decor GoalMarker_geom)
qed

theorem overlay_geoms_are_decor_witness:
  "scene_ok (blank_scene 3)
   \<and> ModifyScene resting_dashboard example_model (example_data 0 1 1) (Some (blank_scene 3)) (0, 0)
       = (Some (emit_all (overlay_prims resting_dashboard example_model (example_data 0 1 1) (0, 0))
                  (blank_scene 3)),
          overlay_timers resting_dashboard (0, 0))
   \<and> geom_category
        (geoms (emit_all (overlay_prims resting_dashboard example_model (example_data 0 1 1) (0, 0))
                  (blank_scene 3)) ! 0) = mjCAT_DECOR
   \<and> geom_type (geoms (GoalMarker (blank_scene 3) 1 1) ! 0) = mjGEOM_SPHERE
   \<and> geom_category (geoms (GoalMarker (blank_scene 3) 1 1) ! 0) = mjCAT_DECOR"
proof -
  let ?ps = "overlay_prims resting_dashboard example_model (example_data 0 1 1) (0, 0)"
  have ok: "scene_ok (blank_scene 3)"
    by (rule scene_ok_blank_scene)
  have run: "ModifyScene resting_dashboard example_model (example_data 0 1 1) (Some (blank_scene 3)) (0, 0)
       = (Some (emit_all ?ps (blank_scene 3)), overlay_timers resting_dashboard (0, 0))"
    by (rule ModifyScene_prims) (simp add: blank_scene_def)
  note inst = overlay_geoms_are_decor [OF ok run]
  have len: "3 \<le> ngeom (blank_scene 3) + int (length ?ps)"
    by (simp add: overlay_prims_def speedometer_prims_def blank_scene_def)
  have "ngeom (emit_all ?ps (blank_scene 3)) =
        min (maxgeom (blank_scene 3)) (ngeom (blank_scene 3) + int (length ?ps))"
    by (rule ngeom_emit_all) (simp add: blank_scene_def)
  then have n: "ngeom (emit_all ?ps (blank_scene 3)) = 3"
    using len by (simp add: blank_scene_def)
  have "ngeom (blank_scene 3) \<le> 0 \<and> 0 < ngeom (emit_all ?ps (blank_scene 3))"
    unfolding n by (simp add: blank_scene_def)
  with inst have a: "geom_category (geoms (emit_all ?ps (blank_scene 3)) ! nat 0) = mjCAT_DECOR"
    by blast
  have "scene_ok (blank_scene 3) \<and> ngeom (blank_scene 3) < maxgeom (blank_scene 3)"
    using ok by (simp add: blank_scene_def)
  with inst have b: "geom_type (geoms (GoalMarker (blank_scene 3) 1 1) ! nat (ngeom (blank_scene 3))) = mjGEOM_SPHERE \<and>
            geom_category (geoms (GoalMarker (blank_scene 3) 1 1) ! nat (ngeom (blank_scene 3))) = mjCAT_DECOR"
    by blast
  have z: "nat (ngeom (blank_scene 3)) = 0"
    by (simp add: blank_scene_def)
  show ?thesis
    using ok run a b unfolding z by simp
qed

subsection \<open>The geometry of a line\<close>

lemma sqrt_sum_squares_factor:
  assumes "x \<noteq> 0"
  shows "sqrt (x * x + y * y) = \<bar>x\<bar> * sqrt (1 + (y / x)\<^sup>2)"
proof -
  have "x * x + y * y = x\<^sup>2 * (1 + (y / x)\<^sup>2)"
    using assms by (simp add: power2_eq_square field_simps)
  then show ?thesis
    by (simp add: real_sqrt_mult)
qed

lemma sqrt_one_plus_pos: "0 < sqrt (1 + (t::real)\<^sup>2)"
  by (simp add: add_pos_nonneg)

lemma cos_atan2: "cos (atan2 y x) * sqrt (x * x + y * y) = x"
proof -
  consider "0 < x" | "x < 0" | "x = 0"
    by linarith
  then show ?thesis
  proof cases
    case 1
    then have "x \<noteq> 0" by simp
    from sqrt_sum_squares_factor [OF this, of y] 1 sqrt_one_plus_pos [of "y / x"] show ?thesis
      by (simp add: atan2_def cos_arctan)
  next
    case 2
    then have "x \<noteq> 0" by simp
    from sqrt_sum_squares_factor [OF this, of y] 2 sqrt_one_plus_pos [of "y / x"] show ?thesis
      by (simp add: atan2_def cos_arctan)
  next
    case 3
    then show ?thesis
      by (simp add: atan2_def)
  qed
qed

lemma sin_atan2: "sin (atan2 y x) * sqrt (x * x + y * y) = y"
proof -
  consider "0 < x" | "x < 0" | "x = 0"
    by linarith
  then show ?thesis
  proof cases
    case 1
    then have "x \<noteq> 0" by simp
    from sqrt_sum_squares_factor [OF this, of y] 1 sqrt_one_plus_pos [of "y / x"] show ?thesis
      by (simp add: atan2_def sin_arctan)
  next
    case 2
    then have "x \<noteq> 0" by simp
    from sqrt_sum_squares_factor [OF this, of y] 2 sqrt_one_plus_pos [of "y / x"] show ?thesis
      by (simp add: atan2_def sin_arctan)
  next
    case 3
    then show ?thesis
      by (simp add: atan2_def)
  qed
qed

lemma atan2_range: "- pi < atan2 y x \<and> atan2 y x \<le> pi"
proof -
  have a: "- (pi / 2) < arctan (y / x)"
    by (rule arctan_lbound)
  have b: "arctan (y / x) < pi / 2"
    by (rule arctan_ubound)
  have c: "x < 0 \<Longrightarrow> 0 \<le> y \<Longrightarrow> arctan (y / x) \<le> 0"
    by (simp add: divide_nonneg_neg)
  have d: "x < 0 \<Longrightarrow> y < 0 \<Longrightarrow> 0 < arctan (y / x)"
    by (simp add: divide_neg_neg)
  show ?thesis
    using a b c d pi_gt_zero by (auto simp add: atan2_def)
qed


text \<open>
  C6. A line append that finds a free slot writes a box with half-length
  \<open>distance / 2\<close>, half-width \<open>width / 2\<close>, centre at the midpoint of the segment and the
  rotation by \<open>atan2 dy dx\<close> about the vertical axis. The rotation takes the local \<open>+x\<close>
  axis to the direction of the segment: scaled by the full length, its image is
  \<open>(x2 - x1, y2 - y1, 0)\<close>. The endpoints are recovered from the emitted centre,
  half-length and rotation (its entries \<open>mat[0] = cos\<close> and \<open>mat[3] = sin\<close> of the angle).
\<close>

theorem Draw2DLine_geometry:
  assumes "scene_ok scene" and "ngeom scene < maxgeom scene"
  shows "let geom = geoms (Draw2DLine scene x1 y1 x2 y2 width r g b a) ! nat (ngeom scene);
             half_length = geom_size geom ! 0;
             cx = geom_pos geom ! 0;
             cy = geom_pos geom ! 1;
             angle = atan2 (y2 - y1) (x2 - x1)
         in geom_type geom = mjGEOM_BOX
          \<and> half_length = sqrt ((x2 - x1)\<^sup>2 + (y2 - y1)\<^sup>2) / 2
          \<and> geom_size geom ! 1 = width / 2
          \<and> cx = (x1 + x2) / 2 \<and> cy = (y1 + y2) / 2
          \<and> geom_mat geom = [cos angle, - sin angle, 0, sin angle, cos angle, 0, 0, 0, 1]
          \<and> - pi < angle \<and> angle \<le> pi
          \<and> map (\<lambda>v. 2 * half_length * v) (mat_vec (geom_mat geom) [1, 0, 0]) = [x2 - x1, y2 - y1, 0]
          \<and> cx - half_length * (geom_mat geom ! 0) = x1
          \<and> cy - half_length * (geom_mat geom ! 3) = y1
          \<and> cx + half_length * (geom_mat geom ! 0) = x2
          \<and> cy + half_length * (geom_mat geom ! 3) = y2"
proof -
  define len where "len = sqrt ((x2 - x1) * (x2 - x1) + (y2 - y1) * (y2 - y1))"
  define angle where "angle = atan2 (y2 - y1) (x2 - x1)"
  define old where "old = geoms scene ! nat (ngeom scene)"
  have c: "cos angle * len = x2 - x1"
    unfolding angle_def len_def by (rule cos_atan2)
  have s: "sin angle * len = y2 - y1"
    unfolding angle_def len_def by (rule sin_atan2)
  have geom: "geoms (Draw2DLine scene x1 y1 x2 y2 width r g b a) ! nat (ngeom scene) =
      old\<lparr>geom_type := mjGEOM_BOX, geom_size := [len / 2, width / 2, 0.001],
          geom_pos := [(x1 + x2) / 2, (y1 + y2) / 2, 0], geom_rgba := [r, g, b, a],
          geom_mat := [cos angle, - sin angle, 0, sin angle, cos angle, 0, 0, 0, 1],
          geom_category := mjCAT_DECOR\<rparr>"
    using geoms_emit_here [OF assms, of "Line x1 y1 x2 y2 width r g b a"]
    by (simp add: len_def angle_def old_def)
  have len2: "len = sqrt ((x2 - x1)\<^sup>2 + (y2 - y1)\<^sup>2)"
    by (simp add: len_def power2_eq_square)
  have e1: "(x1 + x2) / 2 - len / 2 * cos angle = x1"
    using c by (simp add: field_simps)
  have e2: "(y1 + y2) / 2 - len / 2 * sin angle = y1"
    using s by (simp add: field_simps)
  have e3: "(x1 + x2) / 2 + len / 2 * cos angle = x2"
    using c by (simp add: field_simps)
  have e4: "(y1 + y2) / 2 + len / 2 * sin angle = y2"
    using s by (simp add: field_simps)
  have m1: "2 * (len / 2) * cos angle = x2 - x1"
    using c by (simp add: field_simps)
  have m2: "2 * (len / 2) * sin angle = y2 - y1"
    using s by (simp add: field_simps)
  have rng: "- pi < angle \<and> angle \<le> pi"
    unfolding angle_def by (rule atan2_range)
  show ?thesis
    unfolding Let_def geom angle_def [symmetric]
    using e1 e2 e3 e4 m1 m2 rng len2
    by (simp add: mat_vec_def)
qed

theorem Draw2DLine_geometry_witness:
  "scene_ok (blank_scene 1) \<and> ngeom (blank_scene 1) < maxgeom (blank_scene 1)
   \<and> (let geom = geoms (Draw2DLine (blank_scene 1) 1 1 4 5 0.02 1 0 0 1) ! 0
      in geom_type geom = mjGEOM_BOX
       \<and> geom_pos geom = [5 / 2, 3, 0]
       \<and> geom_pos geom ! 0 - geom_size geom ! 0 * (geom_mat geom ! 0) = 1
       \<and> geom_pos geom ! 1 - geom_size geom ! 0 * (geom_mat geom ! 3) = 1
       \<and> geom_pos geom ! 0 + geom_size geom ! 0 * (geom_mat geom ! 0) = 4
       \<and> geom_pos geom ! 1 + geom_size geom ! 0 * (geom_mat geom ! 3) = 5)"
proof -
  have ok: "scene_ok (blank_scene 1)"
    by (rule scene_ok_blank_scene)
  have free: "ngeom (blank_scene 1) < maxgeom (blank_scene 1)"
    by (simp add: blank_scene_def)
  have z: "nat (ngeom (blank_scene 1)) = 0"
    by (simp add: blank_scene_def)
  have pos: "geom_pos (geoms (Draw2DLine (blank_scene 1) 1 1 4 5 0.02 1 0 0 1) ! 0) = [5 / 2, 3, 0]"
    by (simp add: Draw2DLine_def blank_scene_def Let_def)
  note inst = Draw2DLine_geometry [OF ok free, of 1 1 4 5 "0.02" 1 0 0 1, unfolded Let_def z]
  show ?thesis
    unfolding Let_def
    using inst ok free pos by blast
qed

subsection \<open>The ticks of the circular gauges\<close>

lemma geoms_emit_all_above:
  "0 \<le> ngeom scene \<Longrightarrow> nat (ngeom scene) + length ps \<le> i \<Longrightarrow>
   geoms (emit_all ps scene) ! i = geoms scene ! i"
proof (induction ps arbitrary: scene)
  case Nil
  then show ?case by (simp add: emit_all_Nil)
next
  case (Cons p ps)
  have a: "0 \<le> ngeom (emit p scene)"
    using Cons.prems(1) by (simp add: ngeom_emit)
  have b: "nat (ngeom (emit p scene)) + length ps \<le> i"
    using Cons.prems by (auto simp add: ngeom_emit)
  have "geoms (emit_all ps (emit p scene)) ! i = geoms (emit p scene) ! i"
    using a b by (rule Cons.IH)
  moreover have "geoms (emit p scene) ! i = geoms scene ! i"
    using Cons.prems(2) by (intro geoms_emit_above) simp
  ultimately show ?case
    by (simp add: emit_all_Cons)
qed

lemma geoms_emit_all_blank:
  assumes "length ps \<le> n"
  shows "geoms (emit_all ps (blank_scene n)) =
         map (\<lambda>p. write_geom p blank_geom) ps @ replicate (n - length ps) blank_geom"
proof (rule nth_equalityI)
  have ok: "scene_ok (emit_all ps (blank_scene n))"
    by (intro scene_ok_emit_all scene_ok_blank_scene)
  then have len: "length (geoms (emit_all ps (blank_scene n))) = n"
    by (simp add: scene_ok_def maxgeom_emit_all blank_scene_def)
  show "length (geoms (emit_all ps (blank_scene n))) =
        length (map (\<lambda>p. write_geom p blank_geom) ps @ replicate (n - length ps) blank_geom)"
    using assms len by simp
  fix i
  assume "i < length (geoms (emit_all ps (blank_scene n)))"
  then have i: "i < n" using len by simp
  show "geoms (emit_all ps (blank_scene n)) ! i =
        (map (\<lambda>p. write_geom p blank_geom) ps @ replicate (n - length ps) blank_geom) ! i"
  proof (cases "i < length ps")
    case True
    have "geoms (emit_all ps (blank_scene n)) ! (nat (ngeom (blank_scene n)) + i) =
          write_geom (ps ! i) (geoms (blank_scene n) ! (nat (ngeom (blank_scene n)) + i))"
      using True i by (intro geoms_emit_all_nth scene_ok_blank_scene)
        (simp_all add: free_slots_def blank_scene_def)
    then show ?thesis
      using True i by (simp add: blank_scene_def nth_append)
  next
    case False
    have "geoms (emit_all ps (blank_scene n)) ! i = geoms (blank_scene n) ! i"
      using False by (intro geoms_emit_all_above) (simp_all add: blank_scene_def)
    then show ?thesis
      using False i by (simp add: blank_scene_def nth_append)
  qed
qed

lemma tachometer_resting_length:
  "length (tachometer_prims resting_dashboard x y sz) = 27"
  by (simp add: tachometer_prims_def resting_dashboard_def)

text \<open>
  C7, as stated, fails for the tachometer. Drawn into an empty scene of 64 slots at the
  place and size the overlay pass uses, with the dashboard of a car at rest, the
  tachometer leaves 14 boxes in the scene: its 12 minor ticks, its pointer and the
  pointer's tail. The 4 major ticks of the claim would make 18.
\<close>

theorem tachometer_has_no_major_ticks:
  "length (filter (\<lambda>geom. geom_type geom = mjGEOM_BOX)
     (geoms (DrawTachometer2D resting_dashboard (blank_scene 64) (5 / 2) 1 (4 / 5)))) = 14"
proof -
  have "geoms (DrawTachometer2D resting_dashboard (blank_scene 64) (5 / 2) 1 (4 / 5)) =
        map (\<lambda>p. write_geom p blank_geom) (tachometer_prims resting_dashboard (5 / 2) 1 (4 / 5))
        @ replicate (64 - length (tachometer_prims resting_dashboard (5 / 2) 1 (4 / 5))) blank_geom"
    unfolding DrawTachometer2D_prims
    by (rule geoms_emit_all_blank) (simp add: tachometer_resting_length)
  then show ?thesis
    by (simp add: tachometer_prims_def resting_dashboard_def blank_geom_def filter_map comp_def)
qed

text \<open>
  C7, amended. The line segments of the speedometer are, in order: 12 minor ticks at the
  angles \<open>i * 30\<degree>\<close> from \<open>0.8\<close> to \<open>0.9\<close> of its size, 4 major ticks at the angles
  \<open>i * 90\<degree>\<close> from \<open>0.75\<close> to \<open>0.9\<close> of its size, the pointer and its tail. The line
  segments of the tachometer are the same 12 minor ticks, the pointer and its tail: it
  has no major ticks.
\<close>

theorem gauge_ticks:
  "DrawSpeedometer2D dashboard scene x y size' =
     emit_all (speedometer_prims dashboard x y size') scene
   \<and> filter is_Line (speedometer_prims dashboard x y size') =
       map (\<lambda>i. Line (x + size' * 0.8 * cos (real i * (pi / 6)))
                      (y + size' * 0.8 * sin (real i * (pi / 6)))
                      (x + size' * 0.9 * cos (real i * (pi / 6)))
                      (y + size' * 0.9 * sin (real i * (pi / 6)))
                      0.02 0.1 0.1 0.2 0.8) [0..<12]
       @ map (\<lambda>i. Line (x + size' * 0.75 * cos (real i * (pi / 2)))
                        (y + size' * 0.75 * sin (real i * (pi / 2)))
                        (x + size' * 0.9 * cos (real i * (pi / 2)))
                        (y + size' * 0.9 * sin (real i * (pi / 2)))
                        0.03 0.0 0.5 1.0 0.9) [0..<4]
       @ [Line x y
            (x + size' * 0.6 * cos (min 1 (speed_kmh dashboard / 50) * 2 * pi - pi / 2))
            (y + size' * 0.6 * sin (min 1 (speed_kmh dashboard / 50) * 2 * pi - pi / 2))
            0.025 1.0 0.0 0.0 1.0,
          Line x y
            (x - size' * 0.2 * cos (min 1 (speed_kmh dashboard / 50) * 2 * pi - pi / 2) * 0.3)
            (y - size' * 0.2 * sin (min 1 (speed_kmh dashboard / 50) * 2 * pi - pi / 2) * 0.3)
            0.02 1.0 0.0 0.0 1.0]
   \<and> DrawTachometer2D dashboard scene x y size' =
       emit_all (tachometer_prims dashboard x y size') scene
   \<and> filter is_Line (tachometer_prims dashboard x y size') =
       map (\<lambda>i. Line (x + size' * 0.8 * cos (real i * (pi / 6)))
                      (y + size' * 0.8 * sin (real i * (pi / 6)))
                      (x + size' * 0.9 * cos (real i * (pi / 6)))
                      (y + size' * 0.9 * sin (real i * (pi / 6)))
                      0.02 0.1 0.1 0.2 0.8) [0..<12]
       @ [Line x y
            (x + size' * 0.6 * cos (min 1 (rpm dashboard / 8000) * 2 * pi - pi / 2))
            (y + size' * 0.6 * sin (min 1 (rpm dashboard / 8000) * 2 * pi - pi / 2))
            0.025 0.0 1.0 0.0 1.0,
          Line x y
            (x - size' * 0.2 * cos (min 1 (rpm dashboard / 8000) * 2 * pi - pi / 2) * 0.3)
            (y - size' * 0.2 * sin (min 1 (rpm dashboard / 8000) * 2 * pi - pi / 2) * 0.3)
            0.02 0.0 1.0 0.0 1.0]"
proof -
  have sp: "filter is_Line (speedometer_prims dashboard x y size') =
       map (\<lambda>i. Line (x + size' * 0.8 * cos (real i * (pi / 6)))
                      (y + size' * 0.8 * sin (real i * (pi / 6)))
                      (x + size' * 0.9 * cos (real i * (pi / 6)))
                      (y + size' * 0.9 * sin (real i * (pi / 6)))
                      0.02 0.1 0.1 0.2 0.8) [0..<12]
       @ map (\<lambda>i. Line (x + size' * 0.75 * cos (real i * (pi / 2)))
                        (y + size' * 0.75 * sin (real i * (pi / 2)))
                        (x + size' * 0.9 * cos (real i * (pi / 2)))
                        (y + size' * 0.9 * sin (real i * (pi / 2)))
                        0.03 0.0 0.5 1.0 0.9) [0..<4]
       @ [Line x y
            (x + size' * 0.6 * cos (min 1 (speed_kmh dashboard / 50) * 2 * pi - pi / 2))
            (y + size' * 0.6 * sin (min 1 (speed_kmh dashboard / 50) * 2 * pi - pi / 2))
            0.025 1.0 0.0 0.0 1.0,
          Line x y
            (x - size' * 0.2 * cos (min 1 (speed_kmh dashboard / 50) * 2 * pi - pi / 2) * 0.3)
            (y - size' * 0.2 * sin (min 1 (speed_kmh dashboard / 50) * 2 * pi - pi / 2) * 0.3)
            0.02 1.0 0.0 0.0 1.0]"
    by (simp add: speedometer_prims_def filter_map comp_def Let_def min_def)
  have ta: "filter is_Line (tachometer_prims dashboard x y size') =
       map (\<lambda>i. Line (x + size' * 0.8 * cos (real i * (pi / 6)))
                      (y + size' * 0.8 * sin (real i * (pi / 6)))
                      (x + size' * 0.9 * cos (real i * (pi / 6)))
                      (y + size' * 0.9 * sin (real i * (pi / 6)))
                      0.02 0.1 0.1 0.2 0.8) [0..<12]
       @ [Line x y
            (x + size' * 0.6 * cos (min 1 (rpm dashboard / 8000) * 2 * pi - pi / 2))
            (y + size' * 0.6 * sin (min 1 (rpm dashboard / 8000) * 2 * pi - pi / 2))
            0.025 0.0 1.0 0.0 1.0,
          Line x y
            (x - size' * 0.2 * cos (min 1 (rpm dashboard / 8000) * 2 * pi - pi / 2) * 0.3)
            (y - size' * 0.2 * sin (min 1 (rpm dashboard / 8000) * 2 * pi - pi / 2) * 0.3)
            0.02 0.0 1.0 0.0 1.0]"
    by (simp add: tachometer_prims_def filter_map comp_def Let_def min_def)
  show ?thesis
    unfolding sp ta by (simp only: DrawSpeedometer2D_prims DrawTachometer2D_prims simp_thms)
qed

subsection \<open>The telemetry at 10 m/s and the pointer of the speedometer\<close>

lemma sqrt_direction:
  assumes "0 < len"
  shows "sqrt (len * cos t * (len * cos t) + len * sin t * (len * sin t)) = len"
proof -
  have "(len * cos t)\<^sup>2 + (len * sin t)\<^sup>2 = len\<^sup>2 * ((cos t)\<^sup>2 + (sin t)\<^sup>2)"
    by (simp only: power_mult_distrib distrib_left)
  also have "\<dots> = len\<^sup>2"
    by simp
  finally have "sqrt ((len * cos t)\<^sup>2 + (len * sin t)\<^sup>2) = len"
    using assms by simp
  then show ?thesis
    by (simp only: power2_eq_square)
qed

lemma atan2_of_direction:
  assumes "0 < len"
  shows "cos (atan2 (len * sin t) (len * cos t)) = cos t \<and>
         sin (atan2 (len * sin t) (len * cos t)) = sin t"
proof -
  have sq: "sqrt (len * cos t * (len * cos t) + len * sin t * (len * sin t)) = len"
    using assms by (rule sqrt_direction)
  have "cos (atan2 (len * sin t) (len * cos t)) * len = len * cos t"
    using cos_atan2 [of "len * sin t" "len * cos t"] unfolding sq .
  moreover have "sin (atan2 (len * sin t) (len * cos t)) * len = len * sin t"
    using sin_atan2 [of "len * sin t" "len * cos t"] unfolding sq .
  ultimately show ?thesis
    using assms by simp
qed

lemma sqrt_100: "sqrt (100::real) = 10"
  using real_sqrt_abs2 [of "10::real"] by simp

lemma telemetry_at_10:
  assumes "qvel data 0 = 10" and "qvel data 1 = 0"
  shows "speed_kmh (fst (UpdateDashboardData data st)) = 36"
    and "rpm (fst (UpdateDashboardData data st)) = 2240"
    and "temperature (fst (UpdateDashboardData data st)) = 76.8"
proof -
  show a: "speed_kmh (fst (UpdateDashboardData data st)) = 36"
    using assms by (simp add: UpdateDashboardData_speed_kmh sqrt_100)
  show b: "rpm (fst (UpdateDashboardData data st)) = 2240"
    using assms by (simp add: UpdateDashboardData_rpm sqrt_100)
  show "temperature (fst (UpdateDashboardData data st)) = 76.8"
    by (simp add: UpdateDashboardData_temperature b)
qed

lemma speedometer_pointer_prim:
  "speedometer_prims dashboard x y size' ! 25 =
     Line x y
       (x + size' * 0.6 * cos (min 1 (speed_kmh dashboard / 50) * 2 * pi - pi / 2))
       (y + size' * 0.6 * sin (min 1 (speed_kmh dashboard / 50) * 2 * pi - pi / 2))
       0.025 1.0 0.0 0.0 1.0"
  by (simp add: speedometer_prims_def nth_append Let_def min_def)

lemma speedometer_length: "length (speedometer_prims dashboard x y size') = 32"
  by (simp add: speedometer_prims_def Let_def)

lemma speedometer_pointer_geom:
  assumes ok: "scene_ok scene" and free: "26 \<le> free_slots scene" and pos: "0 < size'"
  shows "geoms (DrawSpeedometer2D dashboard scene x y size') ! (nat (ngeom scene) + 25) =
     (geoms scene ! (nat (ngeom scene) + 25))
       \<lparr>geom_type := mjGEOM_BOX,
        geom_size := [size' * 0.6 / 2, 0.025 / 2, 0.001],
        geom_pos := [x + size' * 0.6 / 2 * cos (min 1 (speed_kmh dashboard / 50) * 2 * pi - pi / 2),
                     y + size' * 0.6 / 2 * sin (min 1 (speed_kmh dashboard / 50) * 2 * pi - pi / 2), 0],
        geom_rgba := [1, 0, 0, 1],
        geom_mat := [cos (min 1 (speed_kmh dashboard / 50) * 2 * pi - pi / 2),
                     - sin (min 1 (speed_kmh dashboard / 50) * 2 * pi - pi / 2), 0,
                     sin (min 1 (speed_kmh dashboard / 50) * 2 * pi - pi / 2),
                     cos (min 1 (speed_kmh dashboard / 50) * 2 * pi - pi / 2), 0,
                     0, 0, 1],
        geom_category := mjCAT_DECOR\<rparr>"
proof -
  define t where "t = min 1 (speed_kmh dashboard / 50) * 2 * pi - pi / 2"
  define len where "len = size' * 0.6"
  have len: "0 < len"
    using pos by (simp add: len_def)
  have dir: "cos (atan2 (len * sin t) (len * cos t)) = cos t"
            "sin (atan2 (len * sin t) (len * cos t)) = sin t"
    using atan2_of_direction [OF len, of t] by simp_all
  have sq: "sqrt (len * cos t * (len * cos t) + len * sin t * (len * sin t)) = len"
    using len by (rule sqrt_direction)
  have k1: "25 < length (speedometer_prims dashboard x y size')"
    by (simp add: speedometer_length)
  have k2: "25 < free_slots scene"
    using free by simp
  have "geoms (emit_all (speedometer_prims dashboard x y size') scene) ! (nat (ngeom scene) + 25) =
        write_geom (speedometer_prims dashboard x y size' ! 25) (geoms scene ! (nat (ngeom scene) + 25))"
    using ok k1 k2 by (rule geoms_emit_all_nth)
  also have "speedometer_prims dashboard x y size' ! 25 =
      Line x y (x + len * cos t) (y + len * sin t) 0.025 1.0 0.0 0.0 1.0"
    unfolding speedometer_pointer_prim t_def len_def ..
  finally show ?thesis
    unfolding DrawSpeedometer2D_prims t_def [symmetric]
    using dir sq by (simp add: len_def algebra_simps)
qed


text \<open>
  C3. One telemetry update that reads the planar velocity \<open>(10, 0)\<close> leaves
  \<open>speed_kmh = 36\<close>, \<open>rpm = 2240\<close> and \<open>temperature = 76.8\<close>. The speedometer drawn from
  that dashboard has the pointer ratio \<open>36 / 50 = 0.72\<close>: its 26th append call is the
  pointer, the line from the centre to the point at distance \<open>0.6 * size\<close> in the
  direction of the angle \<open>0.72 * 2 * pi - pi / 2\<close>, and in a scene with room for it the
  box written for the pointer carries the rotation by exactly that angle.
\<close>

theorem telemetry_and_pointer_at_10:
  assumes "qvel data 0 = 10" and "qvel data 1 = 0"
  shows "let dashboard = fst (UpdateDashboardData data st);
             angle = 0.72 * 2 * pi - pi / 2
         in speed_kmh dashboard = 36
          \<and> rpm dashboard = 2240
          \<and> temperature dashboard = 76.8
          \<and> min 1 (speed_kmh dashboard / 50) = 0.72
          \<and> DrawSpeedometer2D dashboard scene x y size' =
              emit_all (speedometer_prims dashboard x y size') scene
          \<and> speedometer_prims dashboard x y size' ! 25 =
              Line x y (x + size' * 0.6 * cos angle) (y + size' * 0.6 * sin angle)
                0.025 1.0 0.0 0.0 1.0
          \<and> (scene_ok scene \<and> 26 \<le> free_slots scene \<and> 0 < size' \<longrightarrow>
               geoms (DrawSpeedometer2D dashboard scene x y size') ! (nat (ngeom scene) + 25) =
                 (geoms scene ! (nat (ngeom scene) + 25))
                   \<lparr>geom_type := mjGEOM_BOX,
                    geom_size := [size' * 0.6 / 2, 0.025 / 2, 0.001],
                    geom_pos := [x + size' * 0.6 / 2 * cos angle, y + size' * 0.6 / 2 * sin angle, 0],
                    geom_rgba := [1, 0, 0, 1],
                    geom_mat := [cos angle, - sin angle, 0, sin angle, cos angle, 0, 0, 0, 1],
                    geom_category := mjCAT_DECOR\<rparr>)"
proof -
  define dashboard where "dashboard = fst (UpdateDashboardData data st)"
  have v: "speed_kmh dashboard = 36" "rpm dashboard = 2240" "temperature dashboard = 76.8"
    unfolding dashboard_def using assms by (rule telemetry_at_10)+
  have ratio: "min 1 (speed_kmh dashboard / 50) = 0.72"
    by (simp add: v)
  have prim: "speedometer_prims dashboard x y size' ! 25 =
      Line x y (x + size' * 0.6 * cos (0.72 * 2 * pi - pi / 2))
        (y + size' * 0.6 * sin (0.72 * 2 * pi - pi / 2)) 0.025 1.0 0.0 0.0 1.0"
    unfolding speedometer_pointer_prim ratio ..
  have geom: "geoms (DrawSpeedometer2D dashboard scene x y size') ! (nat (ngeom scene) + 25) =
      (geoms scene ! (nat (ngeom scene) + 25))
        \<lparr>geom_type := mjGEOM_BOX,
         geom_size := [size' * 0.6 / 2, 0.025 / 2, 0.001],
         geom_pos := [x + size' * 0.6 / 2 * cos (0.72 * 2 * pi - pi / 2),
                      y + size' * 0.6 / 2 * sin (0.72 * 2 * pi - pi / 2), 0],
         geom_rgba := [1, 0, 0, 1],
         geom_mat := [cos (0.72 * 2 * pi - pi / 2), - sin (0.72 * 2 * pi - pi / 2), 0,
                      sin (0.72 * 2 * pi - pi / 2), cos (0.72 * 2 * pi - pi / 2), 0, 0, 0, 1],
         geom_category := mjCAT_DECOR\<rparr>"
    if "scene_ok scene" "26 \<le> free_slots scene" "0 < size'"
    using speedometer_pointer_geom [OF that, of dashboard x y] unfolding ratio .
  show ?thesis
    unfolding Let_def dashboard_def [symmetric]
    using v ratio prim geom DrawSpeedometer2D_prims [of dashboard scene x y size']
    by blast
qed

theorem telemetry_and_pointer_at_10_witness:
  "qvel (example_data 10 0 0) 0 = 10 \<and> qvel (example_data 10 0 0) 1 = 0
   \<and> speed_kmh (fst (UpdateDashboardData (example_data 10 0 0) (DashboardData_init, []))) = 36
   \<and> rpm (fst (UpdateDashboardData (example_data 10 0 0) (DashboardData_init, []))) = 2240
   \<and> temperature (fst (UpdateDashboardData (example_data 10 0 0) (DashboardData_init, []))) = 76.8
   \<and> scene_ok (blank_scene 64) \<and> 26 \<le> free_slots (blank_scene 64) \<and> (0::real) < 4 / 5
   \<and> geom_mat (geoms (DrawSpeedometer2D
         (fst (UpdateDashboardData (example_data 10 0 0) (DashboardData_init, [])))
         (blank_scene 64) (- (5 / 2)) 1 (4 / 5)) ! 25) =
       [cos (0.72 * 2 * pi - pi / 2), - sin (0.72 * 2 * pi - pi / 2), 0,
        sin (0.72 * 2 * pi - pi / 2), cos (0.72 * 2 * pi - pi / 2), 0, 0, 0, 1]"
proof -
  have a: "qvel (example_data 10 0 0) 0 = 10" and b: "qvel (example_data 10 0 0) 1 = 0"
    by (simp_all add: example_data_def)
  have ok: "scene_ok (blank_scene 64)"
    by (rule scene_ok_blank_scene)
  have free: "26 \<le> free_slots (blank_scene 64)"
    by (simp add: free_slots_def blank_scene_def)
  have pos: "(0::real) < 4 / 5"
    by simp
  have z: "nat (ngeom (blank_scene 64)) + 25 = 25"
    by (simp add: blank_scene_def)
  note inst = telemetry_and_pointer_at_10 [OF a b, of "(DashboardData_init, [])" "blank_scene 64"
      "- (5 / 2)" 1 "4 / 5", unfolded Let_def z]
  from inst ok free pos have
    "geoms (DrawSpeedometer2D (fst (UpdateDashboardData (example_data 10 0 0) (DashboardData_init, [])))
         (blank_scene 64) (- (5 / 2)) 1 (4 / 5)) ! 25 =
     (geoms (blank_scene 64) ! 25)
       \<lparr>geom_type := mjGEOM_BOX,
        geom_size := [4 / 5 * 0.6 / 2, 0.025 / 2, 0.001],
        geom_pos := [- (5 / 2) + 4 / 5 * 0.6 / 2 * cos (0.72 * 2 * pi - pi / 2),
                     1 + 4 / 5 * 0.6 / 2 * sin (0.72 * 2 * pi - pi / 2), 0],
        geom_rgba := [1, 0, 0, 1],
        geom_mat := [cos (0.72 * 2 * pi - pi / 2), - sin (0.72 * 2 * pi - pi / 2), 0,
                     sin (0.72 * 2 * pi - pi / 2), cos (0.72 * 2 * pi - pi / 2), 0, 0, 0, 1],
        geom_category := mjCAT_DECOR\<rparr>"
    by blast
  then have m: "geom_mat (geoms (DrawSpeedometer2D
         (fst (UpdateDashboardData (example_data 10 0 0) (DashboardData_init, [])))
         (blank_scene 64) (- (5 / 2)) 1 (4 / 5)) ! 25) =
       [cos (0.72 * 2 * pi - pi / 2), - sin (0.72 * 2 * pi - pi / 2), 0,
        sin (0.72 * 2 * pi - pi / 2), cos (0.72 * 2 * pi - pi / 2), 0, 0, 0, 1]"
    by simp
  show ?thesis
    using inst a b ok free pos m by blast
qed

subsection \<open>The decay of the fuel reserve\<close>

lemma shift53_eq: "2 ^ (52 + k) \<le> m \<Longrightarrow> m < 2 ^ (53 + k) \<Longrightarrow> shift53 m = k"
proof (induction k arbitrary: m)
  case 0
  then show ?case by (simp add: shift53.simps)
next
  case (Suc k)
  have p: "(2::int) ^ (52 + Suc k) = 2 * 2 ^ (52 + k)"
    by (simp only: add_Suc_right power_Suc)
  have q: "(2::int) ^ (53 + Suc k) = 2 * 2 ^ (53 + k)"
    by (simp only: add_Suc_right power_Suc)
  have "2 ^ (52 + k) \<le> m div 2"
    using Suc.prems(1) unfolding p by presburger
  moreover have "m div 2 < 2 ^ (53 + k)"
    using Suc.prems(2) unfolding q by presburger
  ultimately have "shift53 (m div 2) = k"
    by (rule Suc.IH)
  moreover have "\<not> m < 2 ^ 53"
  proof -
    have "(2::int) ^ 53 \<le> 2 ^ (52 + Suc k)"
      by (intro power_increasing) simp_all
    then show ?thesis using Suc.prems(1) by simp
  qed
  ultimately show ?case
    by (subst shift53.simps) simp
qed

lemma round_to_decomp:
  assumes "0 \<le> r" and "r < 2 ^ k"
  shows "round_to k (q * 2 ^ k + r) =
     (if 2 * r < 2 ^ k then q * 2 ^ k
      else if 2 ^ k < 2 * r then (q + 1) * 2 ^ k
      else (if even q then q else q + 1) * 2 ^ k)"
proof -
  have d: "(q * 2 ^ k + r) div 2 ^ k = q"
    using assms by simp
  have m: "(q * 2 ^ k + r) mod 2 ^ k = r"
    using assms by simp
  show ?thesis
    unfolding round_to_def Let_def d m ..
qed

lemma round53_decomp:
  assumes "0 \<le> r" and "r < 2 ^ k"
    and "2 ^ (52 + k) \<le> q * 2 ^ k + r" and "q * 2 ^ k + r < 2 ^ (53 + k)"
  shows "round53 (q * 2 ^ k + r) =
     (if 2 * r < 2 ^ k then q * 2 ^ k
      else if 2 ^ k < 2 * r then (q + 1) * 2 ^ k
      else (if even q then q else q + 1) * 2 ^ k)"
proof -
  have "(0::int) < 2 ^ (52 + k)" by simp
  then have "\<not> q * 2 ^ k + r < 0"
    using assms(3) by linarith
  then show ?thesis
    unfolding round53_def using shift53_eq [OF assms(3,4)] round_to_decomp [OF assms(1,2)]
    by simp
qed

text \<open>
  A phase: \<open>n\<close> calls during which the exact difference stays within one binade, so that
  every call subtracts the same multiple \<open>d * 2 ^ k\<close> of the spacing \<open>2 ^ k\<close>.
\<close>

lemma fuel_phase:
  fixes A d c1 r1 :: int and k n :: nat
  assumes C: "4611686018427388 = c1 * 2 ^ k - r1" and r0: "0 \<le> r1" and r1: "r1 < 2 ^ k"
    and d: "d = (if 2 * r1 < 2 ^ k then c1
                 else if 2 ^ k < 2 * r1 then c1 - 1
                 else (if even (A - c1) then c1 else c1 - 1))"
    and par: "2 * r1 = 2 ^ k \<Longrightarrow> even d"
    and pos: "0 \<le> d"
    and lo: "2 ^ (52 + k) \<le> (A - int n * d) * 2 ^ k + d * 2 ^ k - 4611686018427388"
    and hi: "A * 2 ^ k - 4611686018427388 < 2 ^ (53 + k)"
  shows "j \<le> n \<Longrightarrow> (fuel_step64 ^^ j) (A * 2 ^ k, w) = ((A - int j * d) * 2 ^ k, w)"
proof (induction j)
  case 0
  then show ?case by simp
next
  case (Suc j)
  define a where "a = A - int j * d"
  have jn: "int j + 1 \<le> int n" using Suc.prems by simp
  have prev: "(fuel_step64 ^^ j) (A * 2 ^ k, w) = (a * 2 ^ k, w)"
    using Suc by (simp add: a_def)
  have e: "a * 2 ^ k - 4611686018427388 = (a - c1) * 2 ^ k + r1"
    using C by (simp add: algebra_simps)
  have "(A - int n * d) + d \<le> a"
  proof -
    have "(int j + 1) * d \<le> int n * d"
      using jn pos by (intro mult_right_mono) simp_all
    then show ?thesis by (simp add: a_def algebra_simps)
  qed
  then have "((A - int n * d) + d) * 2 ^ k \<le> a * 2 ^ k"
    by (intro mult_right_mono) simp_all
  then have "(A - int n * d) * 2 ^ k + d * 2 ^ k \<le> a * 2 ^ k"
    by (simp only: distrib_right)
  then have lo': "2 ^ (52 + k) \<le> (a - c1) * 2 ^ k + r1"
    using lo unfolding e [symmetric] by linarith
  have "a \<le> A"
    using pos by (simp add: a_def)
  then have "a * 2 ^ k \<le> A * 2 ^ k"
    by (intro mult_right_mono) simp_all
  then have hi': "(a - c1) * 2 ^ k + r1 < 2 ^ (53 + k)"
    using hi unfolding e [symmetric] by linarith
  have par': "2 * r1 = 2 ^ k \<Longrightarrow> even (a - c1) = even (A - c1)"
    using par by (simp add: a_def)
  have r: "round53 (a * 2 ^ k - 4611686018427388) = (a - d) * 2 ^ k"
    unfolding e round53_decomp [OF r0 r1 lo' hi']
    using d par' by (auto simp add: algebra_simps)
  have nonneg: "0 \<le> (a - d) * 2 ^ k"
  proof (rule ccontr)
    assume "\<not> 0 \<le> (a - d) * 2 ^ k"
    then have "(a - d) * 2 ^ k < 0" by simp
    then have "a - d < 0"
      by (simp add: mult_less_0_iff)
    then have "a - d \<le> - 1" by simp
    then have "(a - d) * 2 ^ k \<le> (- 1) * 2 ^ k"
      by (intro mult_right_mono) simp_all
    moreover have "(a - c1) * 2 ^ k + r1 - (a - d) * 2 ^ k = (d - c1) * 2 ^ k + r1"
      by (simp add: algebra_simps)
    moreover have "(d - c1) * 2 ^ k \<le> 0 * 2 ^ k"
      using d by (intro mult_right_mono) (auto split: if_splits)
    moreover have "(0::int) < 2 ^ (52 + k)" by simp
    ultimately show False
      using lo' r1 by simp
  qed
  have "fuel_step64 (a * 2 ^ k, w) = ((a - d) * 2 ^ k, w)"
    using r nonneg by (simp add: fuel_step64_def)
  then show ?case
    using prev by (simp add: a_def algebra_simps)
qed


lemma funpow_chain:
  assumes "(f ^^ a) x = y" and "(f ^^ b) y = z" and "a + b = c"
  shows "(f ^^ c) x = z"
proof -
  have "c = b + a"
    using assms(3) by simp
  then have "(f ^^ c) x = (f ^^ b) ((f ^^ a) x)"
    by (simp only: funpow_add o_apply)
  then show ?thesis
    using assms(1,2) by simp
qed

lemma fuel_phase_1: "(fuel_step64 ^^ 35999) (461168601842738790400, w) = (295152516864578551808, w)"
  using fuel_phase [where k = 16 and A = 7036874417766400 and d = 70368744178 and ?c1.0 = 70368744178 and ?r1.0 = 22020
      and n = 35999 and j = 35999 and w = w]
  by simp

lemma fuel_run_1: "(fuel_step64 ^^ 35999) (100 * 2 ^ 62, 0) = (295152516864578551808, 0)"
  using fuel_phase_1 [of 0] by simp

lemma fuel_phase_2: "(fuel_step64 ^^ 32000) (295152516864578551808, w) = (147578564275246071808, w)"
  using fuel_phase [where k = 15 and A = 9007339992205156 and d = 140737488355 and ?c1.0 = 140737488356 and ?r1.0 = 22020
      and n = 32000 and j = 32000 and w = w]
  by simp

lemma fuel_run_2: "(fuel_step64 ^^ 67999) (100 * 2 ^ 62, 0) = (147578564275246071808, 0)"
  by (rule funpow_chain [OF fuel_run_1 fuel_phase_2]) simp

lemma fuel_phase_3: "(fuel_step64 ^^ 16000) (147578564275246071808, w) = (73791587980317687808, w)"
  using fuel_phase [where k = 14 and A = 9007480729690312 and d = 281474976711 and ?c1.0 = 281474976711 and ?r1.0 = 5636
      and n = 16000 and j = 16000 and w = w]
  by simp

lemma fuel_run_3: "(fuel_step64 ^^ 83999) (100 * 2 ^ 62, 0) = (73791587980317687808, 0)"
  by (rule funpow_chain [OF fuel_run_2 fuel_phase_3]) simp

lemma fuel_phase_4: "(fuel_step64 ^^ 8000) (73791587980317687808, w) = (36898099832919031808, w)"
  using fuel_phase [where k = 13 and A = 9007762204628624 and d = 562949953421 and ?c1.0 = 562949953422 and ?r1.0 = 5636
      and n = 8000 and j = 8000 and w = w]
  by simp

lemma fuel_run_4: "(fuel_step64 ^^ 91999) (100 * 2 ^ 62, 0) = (36898099832919031808, 0)"
  by (rule funpow_chain [OF fuel_run_3 fuel_phase_4]) simp

lemma fuel_phase_5: "(fuel_step64 ^^ 4000) (36898099832919031808, w) = (18451355759203319808, w)"
  using fuel_phase [where k = 12 and A = 9008325154521248 and d = 1125899906843 and ?c1.0 = 1125899906843 and ?r1.0 = 1540
      and n = 4000 and j = 4000 and w = w]
  by simp

lemma fuel_run_5: "(fuel_step64 ^^ 95999) (100 * 2 ^ 62, 0) = (18451355759203319808, 0)"
  by (rule funpow_chain [OF fuel_run_4 fuel_phase_5]) simp

lemma fuel_phase_6: "(fuel_step64 ^^ 2000) (18451355759203319808, w) = (9227983722349559808, w)"
  using fuel_phase [where k = 11 and A = 9009451054298496 and d = 2251799813685 and ?c1.0 = 2251799813686 and ?r1.0 = 1540
      and n = 2000 and j = 2000 and w = w]
  by simp

lemma fuel_run_6: "(fuel_step64 ^^ 97999) (100 * 2 ^ 62, 0) = (9227983722349559808, 0)"
  by (rule funpow_chain [OF fuel_run_5 fuel_phase_6]) simp

lemma fuel_phase_7: "(fuel_step64 ^^ 1000) (9227983722349559808, w) = (4616297703922679808, w)"
  using fuel_phase [where k = 10 and A = 9011702853856992 and d = 4503599627370 and ?c1.0 = 4503599627371 and ?r1.0 = 516
      and n = 1000 and j = 1000 and w = w]
  by simp

lemma fuel_run_7: "(fuel_step64 ^^ 98999) (100 * 2 ^ 62, 0) = (4616297703922679808, 0)"
  by (rule funpow_chain [OF fuel_run_6 fuel_phase_7]) simp

lemma fuel_phase_8: "(fuel_step64 ^^ 500) (4616297703922679808, w) = (2310454694708983808, w)"
  using fuel_phase [where k = 9 and A = 9016206452973984 and d = 9007199254741 and ?c1.0 = 9007199254741 and ?r1.0 = 4
      and n = 500 and j = 500 and w = w]
  by simp

lemma fuel_run_8: "(fuel_step64 ^^ 99499) (100 * 2 ^ 62, 0) = (2310454694708983808, 0)"
  by (rule funpow_chain [OF fuel_run_7 fuel_phase_8]) simp

lemma fuel_phase_9: "(fuel_step64 ^^ 250) (2310454694708983808, w) = (1157533190102135808, w)"
  using fuel_phase [where k = 8 and A = 9025213651206968 and d = 18014398509482 and ?c1.0 = 18014398509482 and ?r1.0 = 4
      and n = 250 and j = 250 and w = w]
  by simp

lemma fuel_run_9: "(fuel_step64 ^^ 99749) (100 * 2 ^ 62, 0) = (1157533190102135808, 0)"
  by (rule funpow_chain [OF fuel_run_8 fuel_phase_9]) simp

lemma fuel_phase_10: "(fuel_step64 ^^ 125) (1157533190102135808, w) = (581072437798711808, w)"
  using fuel_phase [where k = 7 and A = 9043228047672936 and d = 36028797018964 and ?c1.0 = 36028797018964 and ?r1.0 = 4
      and n = 125 and j = 125 and w = w]
  by simp

lemma fuel_run_10: "(fuel_step64 ^^ 99874) (100 * 2 ^ 62, 0) = (581072437798711808, 0)"
  by (rule funpow_chain [OF fuel_run_9 fuel_phase_10]) simp

lemma fuel_phase_11: "(fuel_step64 ^^ 63) (581072437798711808, w) = (290536218637786112, w)"
  using fuel_phase [where k = 6 and A = 9079256840604872 and d = 72057594037928 and ?c1.0 = 72057594037928 and ?r1.0 = 4
      and n = 63 and j = 63 and w = w]
  by simp

lemma fuel_run_11: "(fuel_step64 ^^ 99937) (100 * 2 ^ 62, 0) = (290536218637786112, 0)"
  by (rule funpow_chain [OF fuel_run_10 fuel_phase_11]) simp

lemma fuel_phase_12: "(fuel_step64 ^^ 31) (290536218637786112, w) = (147573952066536960, w)"
  using fuel_phase [where k = 5 and A = 9079256832430816 and d = 144115188075856 and ?c1.0 = 144115188075856 and ?r1.0 = 4
      and n = 31 and j = 31 and w = w]
  by simp

lemma fuel_run_12: "(fuel_step64 ^^ 99968) (100 * 2 ^ 62, 0) = (147573952066536960, 0)"
  by (rule funpow_chain [OF fuel_run_11 fuel_phase_12]) simp

lemma fuel_phase_13: "(fuel_step64 ^^ 16) (147573952066536960, w) = (73786975771698688, w)"
  using fuel_phase [where k = 4 and A = 9223372004158560 and d = 288230376151712 and ?c1.0 = 288230376151712 and ?r1.0 = 4
      and n = 16 and j = 16 and w = w]
  by simp

lemma fuel_run_13: "(fuel_step64 ^^ 99984) (100 * 2 ^ 62, 0) = (73786975771698688, 0)"
  by (rule funpow_chain [OF fuel_run_12 fuel_phase_13]) simp

lemma fuel_phase_14: "(fuel_step64 ^^ 8) (73786975771698688, w) = (36893487624279552, w)"
  using fuel_phase [where k = 3 and A = 9223371971462336 and d = 576460752303424 and ?c1.0 = 576460752303424 and ?r1.0 = 4
      and n = 8 and j = 8 and w = w]
  by simp

lemma fuel_run_14: "(fuel_step64 ^^ 99992) (100 * 2 ^ 62, 0) = (36893487624279552, 0)"
  by (rule funpow_chain [OF fuel_run_13 fuel_phase_14]) simp

lemma fuel_phase_15: "(fuel_step64 ^^ 4) (36893487624279552, w) = (18446743550570000, w)"
  using fuel_phase [where k = 2 and A = 9223371906069888 and d = 1152921504606847 and ?c1.0 = 1152921504606847 and ?r1.0 = 0
      and n = 4 and j = 4 and w = w]
  by simp

lemma fuel_run_15: "(fuel_step64 ^^ 99996) (100 * 2 ^ 62, 0) = (18446743550570000, 0)"
  by (rule funpow_chain [OF fuel_run_14 fuel_phase_15]) simp

lemma fuel_phase_16: "(fuel_step64 ^^ 2) (18446743550570000, w) = (9223371513715224, w)"
  using fuel_phase [where k = 1 and A = 9223371775285000 and d = 2305843009213694 and ?c1.0 = 2305843009213694 and ?r1.0 = 0
      and n = 2 and j = 2 and w = w]
  by simp

lemma fuel_run_16: "(fuel_step64 ^^ 99998) (100 * 2 ^ 62, 0) = (9223371513715224, 0)"
  by (rule funpow_chain [OF fuel_run_15 fuel_phase_16]) simp

lemma fuel_phase_17: "(fuel_step64 ^^ 1) (9223371513715224, w) = (4611685495287836, w)"
  using fuel_phase [where k = 0 and A = 9223371513715224 and d = 4611686018427388 and ?c1.0 = 4611686018427388 and ?r1.0 = 0
      and n = 1 and j = 1 and w = w]
  by simp

lemma fuel_run_17: "(fuel_step64 ^^ 99999) (100 * 2 ^ 62, 0) = (4611685495287836, 0)"
  by (rule funpow_chain [OF fuel_run_16 fuel_phase_17]) simp

lemma round53_small_negative: "round53 (- 523139552) = - 523139552"
  by (simp add: round53_def round_to_def shift53.simps [of 523139552])

lemma fuel_wrap_call: "fuel_step64 (4611685495287836, 0) = (100 * 2 ^ 62, 1)"
  using round53_small_negative by (simp add: fuel_step64_def)

lemma fuel_after_wrap: "fuel_step64 (100 * 2 ^ 62, w) = (100 * 2 ^ 62 - 4611686018449408, w)"
  using fuel_phase [where k = 16 and A = 7036874417766400 and d = 70368744178
      and ?c1.0 = 70368744178 and ?r1.0 = 22020 and n = 35999 and j = 1 and w = w]
  by simp

lemma fuel_run_100000: "(fuel_step64 ^^ 100000) (100 * 2 ^ 62, 0) = (100 * 2 ^ 62, 1)"
proof (rule funpow_chain [OF fuel_run_17])
  show "(fuel_step64 ^^ 1) (4611685495287836, 0) = (100 * 2 ^ 62, 1)"
    using fuel_wrap_call by simp
  show "99999 + 1 = (100000::nat)"
    by simp
qed

lemma fuel_run_100001:
  "(fuel_step64 ^^ 100001) (100 * 2 ^ 62, 0) = (100 * 2 ^ 62 - 4611686018449408, 1)"
proof (rule funpow_chain [OF fuel_run_100000])
  show "(fuel_step64 ^^ 1) (100 * 2 ^ 62, 1) = (100 * 2 ^ 62 - 4611686018449408, 1)"
    using fuel_after_wrap [of 1] by simp
  show "100000 + 1 = (100001::nat)"
    by simp
qed

lemma binary64_0_001:
  "(2::int) ^ 52 \<le> 4611686018427388 \<and> (4611686018427388::int) < 2 ^ 53
   \<and> \<bar>real_of_int 4611686018427388 / 2 ^ 62 - 0.001\<bar> \<le> 1 / 2 ^ 63"
  by simp


text \<open>The same run in exact arithmetic.\<close>

lemma exact_fuel_run:
  "n \<le> 100000 \<Longrightarrow>
   simulated_fuel (fst ((UpdateDashboardData data ^^ n) (DashboardData_init, out))) =
     100 - real n / 1000"
proof (induction n)
  case 0
  then show ?case by (simp add: DashboardData_init_def)
next
  case (Suc n)
  then have "simulated_fuel (fst ((UpdateDashboardData data ^^ n) (DashboardData_init, out))) =
      100 - real n / 1000"
    by simp
  moreover have "real n + 1 \<le> 100000"
    using Suc.prems by simp
  ultimately show ?case
    by (simp add: UpdateDashboardData_simulated_fuel field_simps)
qed

lemma exact_fuel_100000:
  "simulated_fuel (fst ((UpdateDashboardData data ^^ 100000) (DashboardData_init, out))) = 0"
  using exact_fuel_run [of 100000 data out] by simp

lemma exact_fuel_100001:
  "simulated_fuel (fst ((UpdateDashboardData data ^^ 100001) (DashboardData_init, out))) = 100"
proof -
  have "(UpdateDashboardData data ^^ 100001) (DashboardData_init, out) =
        (UpdateDashboardData data ^^ 1)
          ((UpdateDashboardData data ^^ 100000) (DashboardData_init, out))"
    by (rule funpow_chain [OF refl refl]) simp
  then show ?thesis
    using exact_fuel_100000 [of data out]
    by (simp add: UpdateDashboardData_simulated_fuel)
qed

text \<open>
  C4, as stated, fails in the arithmetic of the code: counting the resets of the
  binary64 run from a full reserve, none has happened after 99,999 calls and one has
  happened after 100,000 calls. The wraparound is at call 100,000, not at call 100,001.
\<close>

theorem fuel_wraps_at_call_100000:
  "snd ((fuel_step64 ^^ 99999) (100 * 2 ^ 62, 0)) = 0
   \<and> snd ((fuel_step64 ^^ 100000) (100 * 2 ^ 62, 0)) = 1"
  by (simp only: fuel_run_17 fuel_run_100000 snd_conv simp_thms)

text \<open>
  C4, amended. Each update subtracts \<open>0.001\<close> from \<open>simulated_fuel\<close>, resets it to
  \<open>100\<close> on that same update when the difference is below \<open>0\<close>, and leaves \<open>fuel\<close> equal
  to \<open>simulated_fuel\<close>. In exact arithmetic the reserve is \<open>0\<close> after 100,000 updates
  from the default members and is reset by update 100,001. In binary64 arithmetic the
  reserve after 99,999 updates is \<open>4611685495287836 * 2\<^sup>-\<^sup>6\<^sup>2\<close>, just below the
  literal \<open>0.001\<close>; update 100,000 resets it, and update 100,001 leaves the first value
  below \<open>100\<close>, with one reset counted in all.
\<close>

theorem fuel_decay_and_wraparound:
  "simulated_fuel (fst (UpdateDashboardData data st)) =
     (if simulated_fuel (fst st) - 0.001 < 0 then 100 else simulated_fuel (fst st) - 0.001)
   \<and> fuel (fst (UpdateDashboardData data st)) = simulated_fuel (fst (UpdateDashboardData data st))
   \<and> simulated_fuel (fst ((UpdateDashboardData data ^^ 100000) (DashboardData_init, out))) = 0
   \<and> simulated_fuel (fst ((UpdateDashboardData data ^^ 100001) (DashboardData_init, out))) = 100
   \<and> (fuel_step64 ^^ 99999) (100 * 2 ^ 62, 0) = (4611685495287836, 0)
   \<and> (fuel_step64 ^^ 100000) (100 * 2 ^ 62, 0) = (100 * 2 ^ 62, 1)
   \<and> (fuel_step64 ^^ 100001) (100 * 2 ^ 62, 0) = (100 * 2 ^ 62 - 4611686018449408, 1)"
  by (simp only: UpdateDashboardData_simulated_fuel UpdateDashboardData_fuel
        exact_fuel_100000 exact_fuel_100001 fuel_run_17 fuel_run_100000 fuel_run_100001 simp_thms)

end
